theory Spec2Isabelle
  imports Complex_Main "HOL-Library.Multiset" "HOL-Library.Word"
begin

unbundle bit_operations_syntax

section \<open>Storage address ranges and node allocations\<close>

text \<open>
  \<^verbatim>\<open>class StorageAddressRange { constructor(pageNr, recordNr, length) }\<close>:
  a run of \<open>length\<close> records on page \<open>pageNr\<close>, starting at record \<open>recordNr\<close>.
  The three fields are JavaScript numbers holding non-negative integers.
\<close>

record StorageAddressRange =
  r_pageNr :: nat
  r_recordNr :: nat
  r_length :: nat

text \<open>\<^verbatim>\<open>class StorageAddress { constructor(pageNr, recordNr) }\<close> as a pair.\<close>

type_synonym StorageAddress = "nat \<times> nat"

text \<open>
  \<^verbatim>\<open>NodeAllocation.addresses\<close>: every range contributes the addresses
  \<open>(pageNr, recordNr + i)\<close> for \<open>i = 0 .. length - 1\<close>, in order.
\<close>

definition range_addresses :: "StorageAddressRange \<Rightarrow> StorageAddress list" where
  "range_addresses r = map (\<lambda>i. (r_pageNr r, r_recordNr r + i)) [0 ..< r_length r]"

definition addresses :: "StorageAddressRange list \<Rightarrow> StorageAddress list" where
  "addresses ranges = concat (map range_addresses ranges)"

text \<open>
  \<^verbatim>\<open>get totalAddresses() { return this.ranges.map(range => range.length).reduce((total, nr) => total + nr, 0); }\<close>
\<close>

definition totalAddresses :: "StorageAddressRange list \<Rightarrow> nat" where
  "totalAddresses ranges = foldl (\<lambda>total nr. total + nr) 0 (map r_length ranges)"

text \<open>
  The inner loop of \<^verbatim>\<open>normalize\<close> (\<^verbatim>\<open>for (let j = i + 1; ...)\<close>): \<open>range\<close> is
  \<^verbatim>\<open>this.ranges[i]\<close> and the list is \<^verbatim>\<open>this.ranges.slice(i + 1)\<close>. A range on another
  page is skipped (\<^verbatim>\<open>continue\<close>). The first range on the same page that starts right
  after \<open>range\<close>, or that ends right before it, absorbs \<open>range\<close> in place and the loop
  breaks. The result is \<open>None\<close> when \<^verbatim>\<open>adjRange\<close> stays undefined, and the mutated
  rest of the array otherwise.
\<close>

fun absorb_adjacent ::
  "StorageAddressRange \<Rightarrow> StorageAddressRange list \<Rightarrow> StorageAddressRange list option" where
  "absorb_adjacent rng [] = None"
| "absorb_adjacent rng (otherRange # rest) =
     (if r_pageNr otherRange \<noteq> r_pageNr rng
      then map_option (\<lambda>rest'. otherRange # rest') (absorb_adjacent rng rest)
      else if r_recordNr otherRange = r_recordNr rng + r_length rng
      then Some (otherRange\<lparr> r_length := r_length otherRange + r_length rng,
                              r_recordNr := r_recordNr rng \<rparr> # rest)
      else if r_recordNr rng = r_recordNr otherRange + r_length otherRange
      then Some (otherRange\<lparr> r_length := r_length otherRange + r_length rng \<rparr> # rest)
      else map_option (\<lambda>rest'. otherRange # rest') (absorb_adjacent rng rest))"

text \<open>
  The outer loop of \<^verbatim>\<open>normalize\<close>. The ranges before index \<open>i\<close> are never touched again,
  so the function works on \<^verbatim>\<open>this.ranges.slice(i)\<close>: when \<^verbatim>\<open>ranges[i]\<close> was absorbed it
  is spliced out and the same index is visited again
  (\<^verbatim>\<open>this.ranges.splice(i, 1); i--;\<close>), otherwise the loop moves on to \<open>i + 1\<close>.
\<close>

function normalize :: "StorageAddressRange list \<Rightarrow> StorageAddressRange list" where
  "normalize [] = []"
| "normalize (rng # rest) =
     (case absorb_adjacent rng rest of
        None \<Rightarrow> rng # normalize rest
      | Some rest' \<Rightarrow> normalize rest')"
  by pat_completeness auto
termination
proof (relation "measure length")
  show "wf (measure length)" by simp
next
  fix rng :: StorageAddressRange and rest
  show "(rest, rng # rest) \<in> measure length" by simp
next
  fix rng :: StorageAddressRange and rest rest'
  assume a: "absorb_adjacent rng rest = Some rest'"
  have "length rest' = length rest" using a
    by (induction rest arbitrary: rest') (auto split: if_splits)
  then show "(rest', rng # rest) \<in> measure length" by simp
qed

section \<open>Errors\<close>

text \<open>
  What the JavaScript throws: a \<^verbatim>\<open>TruncatedDataError\<close>, an \<^verbatim>\<open>Error\<close> with its message,
  a \<^verbatim>\<open>TypeError\<close> or a \<^verbatim>\<open>RangeError\<close> with its message (those the runtime raises by
  itself: a property read on \<^verbatim>\<open>undefined\<close>, a call of something that is not a function, an
  access of a \<^verbatim>\<open>DataView\<close> outside its bounds), or a thrown string.
\<close>

datatype error =
    TruncatedDataError
  | Error string
  | TypeError string
  | RangeError string
  | Thrown string

section \<open>Paths\<close>

text \<open>
  \<^verbatim>\<open>getPathKeys\<close> is imported from \<^verbatim>\<open>./utils\<close>, which is not part of the sources at hand.
  The functions of \<^verbatim>\<open>NodePath\<close> take it as the parameter \<open>getPathKeys\<close>; its keys may be
  of any type.
\<close>

text \<open>
  \<^verbatim>\<open>ancestorKeys.every((key, index) => descendantKeys[index] === key)\<close>, called only
  when \<open>ancestorKeys\<close> is not longer than \<open>descendantKeys\<close>.
\<close>

definition every_key_matches :: "'k list \<Rightarrow> 'k list \<Rightarrow> bool" where
  "every_key_matches ancestorKeys descendantKeys =
     list_all (\<lambda>index. descendantKeys ! index = ancestorKeys ! index) [0 ..< length ancestorKeys]"

text \<open>\<^verbatim>\<open>NodePath(path).isAncestorOf(otherPath)\<close>\<close>

definition isAncestorOf :: "(string \<Rightarrow> 'k list) \<Rightarrow> string \<Rightarrow> string \<Rightarrow> bool" where
  "isAncestorOf getPathKeys path otherPath =
     (if path = [] then True
      else if path = otherPath then False
      else let ancestorKeys = getPathKeys path;
               descendantKeys = getPathKeys otherPath
           in if length ancestorKeys > length descendantKeys then False
              else every_key_matches ancestorKeys descendantKeys)"

text \<open>\<^verbatim>\<open>NodePath(path).isDescendantOf(otherPath)\<close>\<close>

definition isDescendantOf :: "(string \<Rightarrow> 'k list) \<Rightarrow> string \<Rightarrow> string \<Rightarrow> bool" where
  "isDescendantOf getPathKeys path otherPath =
     (if otherPath = [] then True
      else if path = otherPath then False
      else let ancestorKeys = getPathKeys otherPath;
               descendantKeys = getPathKeys path
           in if length ancestorKeys > length descendantKeys then False
              else every_key_matches ancestorKeys descendantKeys)"

text \<open>
  Modelled from the spec: \<^verbatim>\<open>getPathKeys\<close> of \<^verbatim>\<open>./utils\<close> is missing. The spec builds a
  child path as \<^verbatim>\<open>parent.path / key\<close> or \<^verbatim>\<open>parent.path[index]\<close>, so the keys of a path are
  its pieces between slashes, an array index \<^verbatim>\<open>[n]\<close> being a piece of its own. This
  instance is used only where an example needs a concrete key function.
\<close>

fun split_keys :: "string \<Rightarrow> string \<Rightarrow> string list" where
  "split_keys cur [] = (if cur = [] then [] else [cur])"
| "split_keys cur (c # cs) =
     (if c = CHR ''/'' then (if cur = [] then [] else [cur]) @ split_keys [] cs
      else if c = CHR ''['' then (if cur = [] then [] else [cur]) @ split_keys [c] cs
      else split_keys (cur @ [c]) cs)"

definition getPathKeys_spec :: "string \<Rightarrow> string list" where
  "getPathKeys_spec p = split_keys [] p"

section \<open>Node address cache\<close>

text \<open>
  \<^verbatim>\<open>class NodeAddress { constructor(path, pageNr, recordNr) }\<close>. A field is \<open>None\<close> when
  the JavaScript property holds \<^verbatim>\<open>undefined\<close>: \<^verbatim>\<open>NodeCache.invalidate\<close> builds such
  addresses. \<open>isRemoved\<close> tells whether the object was made by
  \<^verbatim>\<open>new RemovedNodeAddress(...)\<close>, the subclass that \<^verbatim>\<open>instanceof RemovedNodeAddress\<close>
  recognises.
\<close>

record NodeAddress =
  path :: "string option"
  pageNr :: "nat option"
  recordNr :: "nat option"
  isRemoved :: bool

text \<open>\<^verbatim>\<open>new NodeAddress(path, pageNr, recordNr)\<close>\<close>

definition new_NodeAddress :: "string option \<Rightarrow> nat option \<Rightarrow> nat option \<Rightarrow> NodeAddress" where
  "new_NodeAddress p pg rc = \<lparr> path = p, pageNr = pg, recordNr = rc, isRemoved = False \<rparr>"

text \<open>
  \<^verbatim>\<open>new RemovedNodeAddress(address)\<close> calls
  \<^verbatim>\<open>super(address.path, address.pageNr, address.recordNr)\<close>.
\<close>

definition new_RemovedNodeAddress :: "NodeAddress \<Rightarrow> NodeAddress" where
  "new_RemovedNodeAddress a =
     \<lparr> path = path a, pageNr = pageNr a, recordNr = recordNr a, isRemoved = True \<rparr>"

text \<open>
  \<^verbatim>\<open>equals(address) { return this.path === address.path && this.pageNr === address.pageNr
  && this.recordNr === address.recordNr; }\<close>
\<close>

definition equals :: "NodeAddress \<Rightarrow> NodeAddress \<Rightarrow> bool" where
  "equals this a = (path this = path a \<and> pageNr this = pageNr a \<and> recordNr this = recordNr a)"

text \<open>
  \<^verbatim>\<open>class NodeCacheEntry\<close>: its fields are \<^verbatim>\<open>address\<close>, \<^verbatim>\<open>timeout\<close>, \<^verbatim>\<open>created\<close> and
  \<^verbatim>\<open>updated\<close>. The expiry timer and the two time stamps are left out: no function of the
  cache reads them.
\<close>

record NodeCacheEntry =
  address :: NodeAddress

text \<open>
  \<^verbatim>\<open>const _nodeAddressCache = { }\<close>: an object used as a dictionary from property names to
  cache entries, kept as an association list in the order of \<^verbatim>\<open>Object.keys\<close> (a new
  key goes last; JavaScript lists keys that are canonical array indexes first).
  A property name that is \<^verbatim>\<open>undefined\<close> is turned into the string \<^verbatim>\<open>"undefined"\<close>.
\<close>

type_synonym cache = "(string \<times> NodeCacheEntry) list"

definition property_key :: "string option \<Rightarrow> string" where
  "property_key k = (case k of None \<Rightarrow> ''undefined'' | Some s \<Rightarrow> s)"

fun cache_set :: "cache \<Rightarrow> string \<Rightarrow> NodeCacheEntry \<Rightarrow> cache" where
  "cache_set [] k e = [(k, e)]"
| "cache_set ((k', e') # c) k e = (if k' = k then (k, e) # c else (k', e') # cache_set c k e)"

definition cache_delete :: "cache \<Rightarrow> string \<Rightarrow> cache" where
  "cache_delete c k = filter (\<lambda>(k', e'). k' \<noteq> k) c"

text \<open>
  \<^verbatim>\<open>NodeCache.update(address)\<close>. An existing entry is updated by
  \<^verbatim>\<open>entry.update(address.pageNr, address.recordNr)\<close>, which stores
  \<^verbatim>\<open>new NodeAddress(this.address.path, pageNr, recordNr)\<close>.
\<close>

definition NodeCache_update :: "cache \<Rightarrow> NodeAddress \<Rightarrow> cache" where
  "NodeCache_update c a =
     (if path a = Some [] then c
      else case map_of c (property_key (path a)) of
             Some entry \<Rightarrow>
               cache_set c (property_key (path a))
                 (entry\<lparr> address := new_NodeAddress (path (address entry)) (pageNr a) (recordNr a) \<rparr>)
           | None \<Rightarrow> cache_set c (property_key (path a)) \<lparr> address = a \<rparr>)"

text \<open>\<^verbatim>\<open>NodeCache.remove(address)\<close>\<close>

definition NodeCache_remove :: "cache \<Rightarrow> NodeAddress \<Rightarrow> cache" where
  "NodeCache_remove c a =
     (case map_of c (property_key (path a)) of
        Some entry \<Rightarrow> cache_delete c (property_key (path a))
      | None \<Rightarrow> c)"

text \<open>
  In \<^verbatim>\<open>invalidate\<close>, the constant \<^verbatim>\<open>address\<close> is bound to
  \<^verbatim>\<open>_nodeAddressCache[invalidatePath]\<close>, which is a \<^verbatim>\<open>NodeCacheEntry\<close> and not a
  \<^verbatim>\<open>NodeAddress\<close>. It is then handed to \<^verbatim>\<open>new RemovedNodeAddress(address)\<close> and to
  \<^verbatim>\<open>this.remove(address)\<close>, which read \<^verbatim>\<open>address.path\<close>, \<^verbatim>\<open>address.pageNr\<close> and
  \<^verbatim>\<open>address.recordNr\<close>. A cache entry has none of these properties, so all three reads
  give \<^verbatim>\<open>undefined\<close>.
\<close>

definition entry_read_as_address :: "NodeCacheEntry \<Rightarrow> NodeAddress" where
  "entry_read_as_address entry = new_NodeAddress None None None"

text \<open>
  The filter of \<^verbatim>\<open>invalidate\<close>:
  \<^verbatim>\<open>cachedPath === cachedPath || requestedPath.isAncestorOf(cachedPath)\<close>.
\<close>

definition NodeCache_invalidate_filter :: "(string \<Rightarrow> 'k list) \<Rightarrow> string \<Rightarrow> string \<Rightarrow> bool" where
  "NodeCache_invalidate_filter getPathKeys requestedPath cachedPath =
     (cachedPath = cachedPath \<or> isAncestorOf getPathKeys requestedPath cachedPath)"

text \<open>
  The \<^verbatim>\<open>paths.forEach\<close> loop of \<^verbatim>\<open>invalidate\<close>. When the cache has no property
  \<^verbatim>\<open>invalidatePath\<close> any more, \<^verbatim>\<open>address\<close> is \<^verbatim>\<open>undefined\<close> and reading
  \<^verbatim>\<open>address.path\<close> throws a \<^verbatim>\<open>TypeError\<close>.
\<close>

fun NodeCache_invalidate_forEach :: "bool \<Rightarrow> cache \<Rightarrow> string list \<Rightarrow> error + cache" where
  "NodeCache_invalidate_forEach markAsDeleted c [] = Inr c"
| "NodeCache_invalidate_forEach markAsDeleted c (invalidatePath # paths) =
     (case map_of c invalidatePath of
        None \<Rightarrow> Inl (TypeError ''Cannot read properties of undefined'')
      | Some entry \<Rightarrow>
          NodeCache_invalidate_forEach markAsDeleted
            (if markAsDeleted
             then NodeCache_update c (new_RemovedNodeAddress (entry_read_as_address entry))
             else NodeCache_remove c (entry_read_as_address entry))
            paths)"

text \<open>\<^verbatim>\<open>NodeCache.invalidate(path, markAsDeleted)\<close>\<close>

definition NodeCache_invalidate ::
  "(string \<Rightarrow> 'k list) \<Rightarrow> cache \<Rightarrow> string \<Rightarrow> bool \<Rightarrow> error + cache" where
  "NodeCache_invalidate getPathKeys c requestedPath markAsDeleted =
     NodeCache_invalidate_forEach markAsDeleted c
       (filter (NodeCache_invalidate_filter getPathKeys requestedPath) (map fst c))"

text \<open>
  \<^verbatim>\<open>entry instanceof RemovedNodeAddress\<close> in \<^verbatim>\<open>NodeCache.find\<close>: \<open>entry\<close> is the
  \<^verbatim>\<open>NodeCacheEntry\<close> found in the cache, whose class does not extend
  \<^verbatim>\<open>RemovedNodeAddress\<close>, so the test is false whatever address the entry holds.
\<close>

definition entry_instanceof_RemovedNodeAddress :: "NodeCacheEntry \<Rightarrow> bool" where
  "entry_instanceof_RemovedNodeAddress entry = False"

text \<open>
  \<^verbatim>\<open>NodeCache.find(path)\<close>; \<open>None\<close> is \<^verbatim>\<open>null\<close>. The call of \<^verbatim>\<open>entry.keepAlive()\<close> only
  restarts the expiry timer.
\<close>

definition NodeCache_find :: "cache \<Rightarrow> string \<Rightarrow> NodeAddress option" where
  "NodeCache_find c p =
     (case map_of c p of
        None \<Rightarrow> None
      | Some entry \<Rightarrow>
          if entry_instanceof_RemovedNodeAddress entry then None else Some (address entry))"

section \<open>The calls that reach the node address cache\<close>

text \<open>
  The loop of \<^verbatim>\<open>invalidate\<close> once more, as the cache it leaves behind: the cache at the
  end of the loop, or the cache at the moment the \<^verbatim>\<open>TypeError\<close> is thrown.
\<close>

fun NodeCache_invalidate_forEach_cache :: "bool \<Rightarrow> cache \<Rightarrow> string list \<Rightarrow> cache" where
  "NodeCache_invalidate_forEach_cache markAsDeleted c [] = c"
| "NodeCache_invalidate_forEach_cache markAsDeleted c (invalidatePath # paths) =
     (case map_of c invalidatePath of
        None \<Rightarrow> c
      | Some entry \<Rightarrow>
          NodeCache_invalidate_forEach_cache markAsDeleted
            (if markAsDeleted
             then NodeCache_update c (new_RemovedNodeAddress (entry_read_as_address entry))
             else NodeCache_remove c (entry_read_as_address entry))
            paths)"

definition NodeCache_invalidate_cache ::
  "(string \<Rightarrow> 'k list) \<Rightarrow> cache \<Rightarrow> string \<Rightarrow> bool \<Rightarrow> cache" where
  "NodeCache_invalidate_cache getPathKeys c requestedPath markAsDeleted =
     NodeCache_invalidate_forEach_cache markAsDeleted c
       (filter (NodeCache_invalidate_filter getPathKeys requestedPath) (map fst c))"





section \<open>Values\<close>

text \<open>
  \<^verbatim>\<open>VALUE_TYPES\<close>, the 4-bit tags of the record format.
\<close>

definition VT_OBJECT :: nat where "VT_OBJECT = 1"
definition VT_ARRAY :: nat where "VT_ARRAY = 2"
definition VT_NUMBER :: nat where "VT_NUMBER = 3"
definition VT_BOOLEAN :: nat where "VT_BOOLEAN = 4"
definition VT_STRING :: nat where "VT_STRING = 5"
definition VT_DATETIME :: nat where "VT_DATETIME = 6"
definition VT_BINARY :: nat where "VT_BINARY = 8"
definition VT_REFERENCE :: nat where "VT_REFERENCE = 9"

lemmas VALUE_TYPES =
  VT_OBJECT_def VT_ARRAY_def VT_NUMBER_def VT_BOOLEAN_def VT_STRING_def VT_DATETIME_def
  VT_BINARY_def VT_REFERENCE_def

type_synonym byte = "8 word"

text \<open>
  The JavaScript values the node functions are given.
  \<^item> A number is a finite double, kept as the real it denotes (\<^verbatim>\<open>NaN\<close>, the infinities
    and the sign of zero are not represented).
  \<^item> A string is kept as the sequence of its UTF-8 bytes, one \<^typ>\<open>char\<close> per byte, so
    that \<^verbatim>\<open>textEncoder.encode(s).length\<close> is the length of the list.
  \<^item> \<open>JDate ms\<close> is a \<^verbatim>\<open>Date\<close> whose \<^verbatim>\<open>getTime()\<close> is \<open>ms\<close>.
  \<^item> \<open>JArrayBuffer bs\<close> is an \<^verbatim>\<open>ArrayBuffer\<close> holding the bytes \<open>bs\<close>.
  \<^item> \<open>JPathReference p\<close> is \<^verbatim>\<open>new PathReference(p)\<close>.
  \<^item> \<open>JInternalNodeReference t a\<close> is \<^verbatim>\<open>new InternalNodeReference(t, a)\<close>.
  \<^item> \<open>JObject\<close> is a plain object with its own enumerable properties in the order of
    \<^verbatim>\<open>Object.keys\<close>.
\<close>

datatype jsvalue =
    JUndefined
  | JNull
  | JNumber real
  | JBoolean bool
  | JString string
  | JDate real
  | JArrayBuffer "byte list"
  | JPathReference string
  | JInternalNodeReference nat NodeAddress
  | JArray "jsvalue list"
  | JObject "(string \<times> jsvalue) list"

text \<open>
  \<^verbatim>\<open>textEncoder.encode\<close> and \<^verbatim>\<open>textDecoder.decode\<close> on strings kept as UTF-8 bytes.
\<close>

definition textEncoder_encode :: "string \<Rightarrow> byte list" where
  "textEncoder_encode s = map (\<lambda>c. of_nat (of_char c)) s"

definition textDecoder_decode :: "byte list \<Rightarrow> string" where
  "textDecoder_decode bs = map (\<lambda>b. char_of (unat b)) bs"

text \<open>
  \<^verbatim>\<open>value.length\<close> where \<^verbatim>\<open>value\<close> is an \<^verbatim>\<open>ArrayBuffer\<close>: an \<^verbatim>\<open>ArrayBuffer\<close> has the
  property \<^verbatim>\<open>byteLength\<close> and no property \<^verbatim>\<open>length\<close>, so the read gives
  \<^verbatim>\<open>undefined\<close> (\<open>None\<close>).
\<close>

definition ArrayBuffer_length :: "byte list \<Rightarrow> nat option" where
  "ArrayBuffer_length bs = None"

definition ArrayBuffer_byteLength :: "byte list \<Rightarrow> nat" where
  "ArrayBuffer_byteLength bs = length bs"

text \<open>
  \<^verbatim>\<open>a < b\<close> where \<open>a\<close> may be \<^verbatim>\<open>undefined\<close>: \<^verbatim>\<open>undefined\<close> is converted to \<^verbatim>\<open>NaN\<close>, and
  every comparison with \<^verbatim>\<open>NaN\<close> is false.
\<close>

definition js_less :: "nat option \<Rightarrow> nat \<Rightarrow> bool" where
  "js_less a b = (case a of None \<Rightarrow> False | Some x \<Rightarrow> x < b)"

text \<open>
  \<^verbatim>\<open>_valueFitsInline(storage, value)\<close>; \<open>maxInlineValueSize\<close> is
  \<^verbatim>\<open>storage.settings.maxInlineValueSize\<close>. The tests are made in the order of the source.
  \<^verbatim>\<open>typeof null\<close> is \<^verbatim>\<open>"object"\<close>, and \<^verbatim>\<open>Object.keys(null)\<close> throws a \<^verbatim>\<open>TypeError\<close>.
\<close>

fun valueFitsInline :: "nat \<Rightarrow> jsvalue \<Rightarrow> error + bool" where
  "valueFitsInline maxInlineValueSize (JNumber x) = Inr True"
| "valueFitsInline maxInlineValueSize (JBoolean b) = Inr True"
| "valueFitsInline maxInlineValueSize (JDate ms) = Inr True"
| "valueFitsInline maxInlineValueSize (JInternalNodeReference t a) = Inr True"
| "valueFitsInline maxInlineValueSize (JString s) =
     Inr (length (textEncoder_encode s) < maxInlineValueSize)"
| "valueFitsInline maxInlineValueSize (JPathReference p) =
     Inr (length (textEncoder_encode p) < maxInlineValueSize)"
| "valueFitsInline maxInlineValueSize (JArrayBuffer bs) =
     Inr (js_less (ArrayBuffer_length bs) maxInlineValueSize)"
| "valueFitsInline maxInlineValueSize (JArray xs) = Inr (length xs = 0)"
| "valueFitsInline maxInlineValueSize (JObject kvs) = Inr (length (map fst kvs) = 0)"
| "valueFitsInline maxInlineValueSize JNull =
     Inl (TypeError ''Cannot convert undefined or null to object'')"
| "valueFitsInline maxInlineValueSize JUndefined = Inl (TypeError ''What else is there?'')"

section \<open>Serialized child values\<close>

text \<open>
  \<^verbatim>\<open>keyOrIndex\<close>: a property name or an array index.
\<close>

datatype keyOrIndex = Key string | Index nat

text \<open>
  The property \<^verbatim>\<open>bytes\<close> of a serialized value holds either a plain array of numbers
  (from \<^verbatim>\<open>numberToBytes\<close>, or \<^verbatim>\<open>[]\<close>) or, for a binary value, the \<^verbatim>\<open>ArrayBuffer\<close> itself.
\<close>

datatype bytes_field = NumberArray "int list" | ArrayBufferObject "byte list"

text \<open>
  \<^verbatim>\<open>class SerializedKeyValue\<close>; \<open>None\<close> is \<^verbatim>\<open>undefined\<close>. The object literal
  \<^verbatim>\<open>{ type: VALUE_TYPES.BINARY, bytes: val }\<close> that \<^verbatim>\<open>_serializeValue\<close> returns for a small
  \<^verbatim>\<open>ArrayBuffer\<close> is kept in the same record, all other properties being \<^verbatim>\<open>undefined\<close>.
\<close>

record SerializedKeyValue =
  kv_key :: "string option"
  kv_index :: "nat option"
  kv_type :: nat
  kv_bool :: "bool option"
  kv_ref :: "jsvalue option"
  kv_binary :: "byte list option"
  kv_record :: "NodeAddress option"
  kv_bytes :: "bytes_field option"

definition empty_details :: "nat \<Rightarrow> SerializedKeyValue" where
  "empty_details t =
     \<lparr> kv_key = None, kv_index = None, kv_type = t, kv_bool = None, kv_ref = None,
       kv_binary = None, kv_record = None, kv_bytes = None \<rparr>"

text \<open>
  The local function \<^verbatim>\<open>create(details)\<close> of \<^verbatim>\<open>_serializeValue\<close>: it sets \<^verbatim>\<open>index\<close> or
  \<^verbatim>\<open>key\<close>, and \<^verbatim>\<open>ref\<close>.
\<close>

definition create :: "keyOrIndex \<Rightarrow> jsvalue \<Rightarrow> SerializedKeyValue \<Rightarrow> SerializedKeyValue" where
  "create keyOrIndex val details =
     (case keyOrIndex of
        Index i \<Rightarrow> details\<lparr> kv_index := Some i, kv_ref := Some val \<rparr>
      | Key k \<Rightarrow> details\<lparr> kv_key := Some k, kv_ref := Some val \<rparr>)"

text \<open>
  \<^verbatim>\<open>_lockAndWriteNode(storage, path, val, parentTid).then(recordInfo => create({ type,
  record: recordInfo.address }))\<close>: the value is written to a record of its own. The write
  is the parameter \<open>lockAndWriteNode\<close>, which gives the address of the new record or the
  error the promise is rejected with.
\<close>

definition in_own_record ::
  "(string \<Rightarrow> jsvalue \<Rightarrow> error + NodeAddress) \<Rightarrow> string \<Rightarrow> keyOrIndex \<Rightarrow> jsvalue \<Rightarrow> nat
     \<Rightarrow> error + SerializedKeyValue" where
  "in_own_record lockAndWriteNode p keyOrIndex val t =
     (case lockAndWriteNode p val of
        Inl e \<Rightarrow> Inl e
      | Inr a \<Rightarrow> Inr (create keyOrIndex val ((empty_details t)\<lparr> kv_record := Some a \<rparr>)))"

text \<open>
  \<^verbatim>\<open>_serializeValue(storage, path, keyOrIndex, val, parentTid)\<close>. \<^verbatim>\<open>numberToBytes\<close> is
  imported from \<^verbatim>\<open>./utils\<close>, which is not part of the sources at hand: it is a parameter.
  The tests are made in the order of the source. The last branch turns a value that is
  not a string into one with \<^verbatim>\<open>val.toString()\<close>: on \<^verbatim>\<open>undefined\<close> this throws.
\<close>

fun serializeValue ::
  "(real \<Rightarrow> int list) \<Rightarrow> nat \<Rightarrow> (string \<Rightarrow> jsvalue \<Rightarrow> error + NodeAddress)
     \<Rightarrow> string \<Rightarrow> keyOrIndex \<Rightarrow> jsvalue \<Rightarrow> error + SerializedKeyValue" where
  "serializeValue numberToBytes maxInlineValueSize lockAndWriteNode p keyOrIndex (JDate ms) =
     Inr (create keyOrIndex (JDate ms)
            ((empty_details VT_DATETIME)\<lparr> kv_bytes := Some (NumberArray (numberToBytes ms)) \<rparr>))"
| "serializeValue numberToBytes maxInlineValueSize lockAndWriteNode p keyOrIndex (JArray xs) =
     (if length xs = 0
      then Inr (create keyOrIndex (JArray xs)
                  ((empty_details VT_ARRAY)\<lparr> kv_bytes := Some (NumberArray []) \<rparr>))
      else in_own_record lockAndWriteNode p keyOrIndex (JArray xs) VT_ARRAY)"
| "serializeValue numberToBytes maxInlineValueSize lockAndWriteNode p keyOrIndex
     (JInternalNodeReference t a) =
     Inr (create keyOrIndex (JInternalNodeReference t a)
            ((empty_details t)\<lparr> kv_record := Some a \<rparr>))"
| "serializeValue numberToBytes maxInlineValueSize lockAndWriteNode p keyOrIndex (JArrayBuffer bs) =
     (if ArrayBuffer_byteLength bs > maxInlineValueSize
      then in_own_record lockAndWriteNode p keyOrIndex (JArrayBuffer bs) VT_BINARY
      else Inr ((empty_details VT_BINARY)\<lparr> kv_bytes := Some (ArrayBufferObject bs) \<rparr>))"
| "serializeValue numberToBytes maxInlineValueSize lockAndWriteNode p keyOrIndex (JPathReference r) =
     (if length (textEncoder_encode r) > maxInlineValueSize
      then in_own_record lockAndWriteNode p keyOrIndex (JPathReference r) VT_REFERENCE
      else Inr (create keyOrIndex (JPathReference r)
                  ((empty_details VT_REFERENCE)\<lparr> kv_binary := Some (textEncoder_encode r) \<rparr>)))"
| "serializeValue numberToBytes maxInlineValueSize lockAndWriteNode p keyOrIndex (JObject kvs) =
     (if length (map fst kvs) = 0
      then Inr (create keyOrIndex (JObject kvs)
                  ((empty_details VT_OBJECT)\<lparr> kv_bytes := Some (NumberArray []) \<rparr>))
      else in_own_record lockAndWriteNode p keyOrIndex (JObject kvs) VT_OBJECT)"
| "serializeValue numberToBytes maxInlineValueSize lockAndWriteNode p keyOrIndex JNull =
     Inl (TypeError ''Cannot convert undefined or null to object'')"
| "serializeValue numberToBytes maxInlineValueSize lockAndWriteNode p keyOrIndex (JNumber x) =
     Inr (create keyOrIndex (JNumber x)
            ((empty_details VT_NUMBER)\<lparr> kv_bytes := Some (NumberArray (numberToBytes x)) \<rparr>))"
| "serializeValue numberToBytes maxInlineValueSize lockAndWriteNode p keyOrIndex (JBoolean b) =
     Inr (create keyOrIndex (JBoolean b) ((empty_details VT_BOOLEAN)\<lparr> kv_bool := Some b \<rparr>))"
| "serializeValue numberToBytes maxInlineValueSize lockAndWriteNode p keyOrIndex (JString s) =
     (if length (textEncoder_encode s) > maxInlineValueSize
      then in_own_record lockAndWriteNode p keyOrIndex (JString s) VT_STRING
      else Inr (create keyOrIndex (JString s)
                  ((empty_details VT_STRING)\<lparr> kv_binary := Some (textEncoder_encode s) \<rparr>)))"
| "serializeValue numberToBytes maxInlineValueSize lockAndWriteNode p keyOrIndex JUndefined =
     Inl (TypeError ''Cannot read properties of undefined'')"

section \<open>Child entries: encoding\<close>

text \<open>
  The tests that \<^verbatim>\<open>_getValueBytes\<close> makes on \<^verbatim>\<open>kvp.ref\<close>, the value that was serialized
  (\<open>None\<close> is \<^verbatim>\<open>undefined\<close>).
  \<^item> \<^verbatim>\<open>kvp.ref >= 0 && kvp.ref <= 15 && Math.floor(kvp.ref) === kvp.ref\<close> holds of a
    number only: for every other value \<^verbatim>\<open>Math.floor\<close> gives a number, which is not
    strictly equal to the value.
  \<^item> \<^verbatim>\<open>kvp.ref.length === 0\<close> throws on \<^verbatim>\<open>undefined\<close> and \<^verbatim>\<open>null\<close>; arrays and strings
    have a length, the other values do not.
  \<^item> \<^verbatim>\<open>Object.keys(kvp.ref).length === 0\<close> throws on \<^verbatim>\<open>undefined\<close> and \<^verbatim>\<open>null\<close>; a path
    reference has the own property \<^verbatim>\<open>path\<close> and an internal node reference has
    \<^verbatim>\<open>type\<close> and \<^verbatim>\<open>_address\<close>; numbers, booleans, dates and array buffers have no
    own enumerable property.
\<close>

definition ref_is_tiny_number :: "jsvalue option \<Rightarrow> bool" where
  "ref_is_tiny_number r =
     (case r of
        Some (JNumber x) \<Rightarrow> x \<ge> 0 \<and> x \<le> 15 \<and> of_int (floor x) = x
      | _ \<Rightarrow> False)"

definition ref_tiny_number :: "jsvalue option \<Rightarrow> int" where
  "ref_tiny_number r = (case r of Some (JNumber x) \<Rightarrow> floor x | _ \<Rightarrow> 0)"

definition ref_length_is_0 :: "jsvalue option \<Rightarrow> error + bool" where
  "ref_length_is_0 r =
     (case r of
        None \<Rightarrow> Inl (TypeError ''Cannot read properties of undefined'')
      | Some JUndefined \<Rightarrow> Inl (TypeError ''Cannot read properties of undefined'')
      | Some JNull \<Rightarrow> Inl (TypeError ''Cannot read properties of null'')
      | Some (JArray xs) \<Rightarrow> Inr (length xs = 0)
      | Some (JString s) \<Rightarrow> Inr (length s = 0)
      | Some _ \<Rightarrow> Inr False)"

definition ref_has_no_keys :: "jsvalue option \<Rightarrow> error + bool" where
  "ref_has_no_keys r =
     (case r of
        None \<Rightarrow> Inl (TypeError ''Cannot convert undefined or null to object'')
      | Some JUndefined \<Rightarrow> Inl (TypeError ''Cannot convert undefined or null to object'')
      | Some JNull \<Rightarrow> Inl (TypeError ''Cannot convert undefined or null to object'')
      | Some (JObject kvs) \<Rightarrow> Inr (length (map fst kvs) = 0)
      | Some (JArray xs) \<Rightarrow> Inr (length xs = 0)
      | Some (JString s) \<Rightarrow> Inr (length s = 0)
      | Some (JPathReference p) \<Rightarrow> Inr False
      | Some (JInternalNodeReference t a) \<Rightarrow> Inr False
      | Some _ \<Rightarrow> Inr True)"

text \<open>
  The \<^verbatim>\<open>tinyValue\<close> of \<^verbatim>\<open>_getValueBytes\<close>: \<open>-1\<close> unless one of the five tests of the
  source sets it. There is no test for the types \<^verbatim>\<open>BINARY\<close> and \<^verbatim>\<open>REFERENCE\<close>.
\<close>

definition tiny_if_empty_object :: "SerializedKeyValue \<Rightarrow> error + int" where
  "tiny_if_empty_object kvp =
     (if kv_type kvp = VT_OBJECT
      then (case ref_has_no_keys (kv_ref kvp) of
              Inl e \<Rightarrow> Inl e | Inr True \<Rightarrow> Inr 0 | Inr False \<Rightarrow> Inr (- 1))
      else Inr (- 1))"

definition tinyValue_of :: "SerializedKeyValue \<Rightarrow> error + int" where
  "tinyValue_of kvp =
     (if kv_type kvp = VT_BOOLEAN then Inr (if kv_bool kvp = Some True then 1 else 0)
      else if kv_type kvp = VT_NUMBER \<and> ref_is_tiny_number (kv_ref kvp)
      then Inr (ref_tiny_number (kv_ref kvp))
      else if kv_type kvp = VT_STRING \<and> kv_binary kvp \<noteq> None \<and> length (the (kv_binary kvp)) = 0
      then Inr 0
      else if kv_type kvp = VT_ARRAY
      then (case ref_length_is_0 (kv_ref kvp) of
              Inl e \<Rightarrow> Inl e
            | Inr True \<Rightarrow> Inr 0
            | Inr False \<Rightarrow> tiny_if_empty_object kvp)
      else tiny_if_empty_object kvp)"

text \<open>
  \<^verbatim>\<open>DataView.setUint32\<close> and \<^verbatim>\<open>setUint16\<close> (big-endian), as the bytes they store. A
  value that is \<^verbatim>\<open>undefined\<close> is stored as 0.
\<close>

definition setUint32 :: "nat option \<Rightarrow> int list" where
  "setUint32 v =
     (let n = (case v of None \<Rightarrow> 0 | Some n \<Rightarrow> n)
      in [int (n div 2 ^ 24 mod 256), int (n div 2 ^ 16 mod 256), int (n div 2 ^ 8 mod 256),
          int (n mod 256)])"

definition setUint16 :: "nat option \<Rightarrow> int list" where
  "setUint16 v =
     (let n = (case v of None \<Rightarrow> 0 | Some n \<Rightarrow> n)
      in [int (n div 2 ^ 8 mod 256), int (n mod 256)])"

text \<open>
  The inline branch of \<^verbatim>\<open>_getValueBytes\<close>, for \<^verbatim>\<open>data = kvp.bytes || kvp.binary\<close> (an
  array and an \<^verbatim>\<open>ArrayBuffer\<close> are truthy, also when empty):
  \<^verbatim>\<open>bytes[index] = 128; bytes[index] |= data.length - 1; data.forEach(val => bytes.push(val))\<close>.
  \<^item> For an array of numbers or a \<^verbatim>\<open>Uint8Array\<close> of length 0 the second byte is
    \<^verbatim>\<open>128 | -1\<close>, that is \<open>-1\<close>.
  \<^item> For an \<^verbatim>\<open>ArrayBuffer\<close>, \<^verbatim>\<open>data.length\<close> is \<^verbatim>\<open>undefined\<close>, and \<^verbatim>\<open>data.forEach\<close> is
    \<^verbatim>\<open>undefined\<close> too: calling it throws a \<^verbatim>\<open>TypeError\<close>.
  \<^item> When both properties are \<^verbatim>\<open>undefined\<close>, reading \<^verbatim>\<open>data.length\<close> throws.
\<close>

definition inline_bytes :: "int \<Rightarrow> SerializedKeyValue \<Rightarrow> error + int list" where
  "inline_bytes b0 kvp =
     (case kv_bytes kvp of
        Some (NumberArray xs) \<Rightarrow> Inr ([b0, 128 OR (int (length xs) - 1)] @ xs)
      | Some (ArrayBufferObject bs) \<Rightarrow> Inl (TypeError ''data.forEach is not a function'')
      | None \<Rightarrow>
          (case kv_binary kvp of
             Some us \<Rightarrow> Inr ([b0, 128 OR (int (length us) - 1)] @ map uint us)
           | None \<Rightarrow> Inl (TypeError ''Cannot read properties of undefined'')))"

text \<open>\<^verbatim>\<open>_getValueBytes(kvp)\<close>: the plain array of numbers it returns.\<close>

definition getValueBytes :: "SerializedKeyValue \<Rightarrow> error + int list" where
  "getValueBytes kvp =
     (let b0 = push_bit 4 (int (kv_type kvp))
      in case tinyValue_of kvp of
           Inl e \<Rightarrow> Inl e
         | Inr tinyValue \<Rightarrow>
             if tinyValue \<ge> 0 then Inr [b0 OR tinyValue, 64]
             else (case kv_record kvp of
                     Some addr \<Rightarrow>
                       Inr ([b0, 192] @ setUint32 (pageNr addr) @ setUint16 (recordNr addr))
                   | None \<Rightarrow> inline_bytes b0 kvp))"

text \<open>
  \<^verbatim>\<open>new Uint8Array(bytes)\<close>, as \<^verbatim>\<open>_writeNode\<close> does with the bytes of a child entry: each
  number is reduced modulo 256.
\<close>

definition new_Uint8Array :: "int list \<Rightarrow> byte list" where
  "new_Uint8Array xs = map word_of_int xs"

section \<open>Child entries: decoding\<close>

text \<open>\<^verbatim>\<open>class NodeInfo\<close>; \<open>None\<close> is \<^verbatim>\<open>undefined\<close>.\<close>

record NodeInfo =
  ni_path :: "string option"
  ni_type :: "nat option"
  ni_index :: "nat option"
  ni_key :: "string option"
  ni_exists :: bool
  ni_address :: "NodeAddress option"
  ni_value :: "jsvalue option"

text \<open>A number in a template string.\<close>

fun decimal :: "nat \<Rightarrow> string" where
  "decimal n =
     (if n < 10 then [char_of (48 + n)] else decimal (n div 10) @ [char_of (48 + n mod 10)])"

text \<open>
  The path of a child that has its own record:
  \<^verbatim>\<open>isArray ? `${this.address.path}[${child.index}]` : this.address.path === "" ? child.key
  : `${this.address.path}/${child.key}`\<close>. In a template string \<^verbatim>\<open>undefined\<close> reads
  \<^verbatim>\<open>"undefined"\<close>.
\<close>

definition childPath_of :: "NodeAddress \<Rightarrow> bool \<Rightarrow> NodeInfo \<Rightarrow> string option" where
  "childPath_of this_address isArray child =
     (if isArray
      then Some (property_key (path this_address) @ ''[''
                 @ (case ni_index child of None \<Rightarrow> ''undefined'' | Some i \<Rightarrow> decimal i) @ '']'')
      else if path this_address = Some []
      then ni_key child
      else Some (property_key (path this_address) @ ''/'' @ property_key (ni_key child)))"

text \<open>\<^verbatim>\<open>DataView.getUint32\<close> and \<^verbatim>\<open>getUint16\<close> (big-endian) at an offset.\<close>

definition getUint32 :: "byte list \<Rightarrow> nat \<Rightarrow> nat" where
  "getUint32 binary i =
     unat (binary ! i) * 2 ^ 24 + unat (binary ! (i + 1)) * 2 ^ 16
     + unat (binary ! (i + 2)) * 2 ^ 8 + unat (binary ! (i + 3))"

definition getUint16 :: "byte list \<Rightarrow> nat \<Rightarrow> nat" where
  "getUint16 binary i = unat (binary ! i) * 2 ^ 8 + unat (binary ! (i + 1))"

text \<open>The tiny branch of \<^verbatim>\<open>getValueFromBinary\<close>.\<close>

definition tiny_value :: "nat \<Rightarrow> nat \<Rightarrow> error + jsvalue" where
  "tiny_value type tinyValue =
     (if type = VT_BOOLEAN then Inr (JBoolean (tinyValue = 1))
      else if type = VT_NUMBER then Inr (JNumber (of_nat tinyValue))
      else if type = VT_STRING then Inr (JString [])
      else if type = VT_ARRAY then Inr (JArray [])
      else if type = VT_OBJECT then Inr (JObject [])
      else if type = VT_BINARY then Inr (JArrayBuffer [])
      else if type = VT_REFERENCE then Inr (JPathReference [])
      else Inl (Thrown ''Tiny value deserialization method missing for value type''))"

text \<open>
  The inline branch of \<^verbatim>\<open>getValueFromBinary\<close>. \<^verbatim>\<open>bytesToNumber\<close> is imported from
  \<^verbatim>\<open>./utils\<close>, which is not part of the sources at hand: it is a parameter.
\<close>

definition inline_value :: "(byte list \<Rightarrow> real) \<Rightarrow> nat \<Rightarrow> byte list \<Rightarrow> error + jsvalue" where
  "inline_value bytesToNumber type bytes =
     (if type = VT_NUMBER then Inr (JNumber (bytesToNumber bytes))
      else if type = VT_STRING then Inr (JString (textDecoder_decode bytes))
      else if type = VT_DATETIME then Inr (JDate (bytesToNumber bytes))
      else if type = VT_ARRAY then Inl (Error ''Inline array deserialization not implemented'')
      else if type = VT_OBJECT then Inl (Error ''Inline object deserialization not implemented'')
      else if type = VT_BINARY then Inr (JArrayBuffer bytes)
      else if type = VT_REFERENCE then Inr (JPathReference (textDecoder_decode bytes))
      else Inl (Thrown ''Inline value deserialization method missing for value type''))"

text \<open>
  \<^verbatim>\<open>getValueFromBinary(child, binary, index)\<close>, a closure of \<^verbatim>\<open>getChildStream\<close>:
  \<open>this_address\<close> is \<^verbatim>\<open>this.address\<close>, the address of the record being read, and
  \<open>isArray\<close> the variable of that name. The result is the child as the function leaves it
  and the index after the entry, or the error thrown.
\<close>

definition getValueFromBinary ::
  "(byte list \<Rightarrow> real) \<Rightarrow> NodeAddress \<Rightarrow> bool \<Rightarrow> NodeInfo \<Rightarrow> byte list \<Rightarrow> nat
     \<Rightarrow> error + (NodeInfo \<times> nat)" where
  "getValueFromBinary bytesToNumber this_address isArray child binary startIndex =
     (if startIndex + 2 > length binary then Inl TruncatedDataError
      else
        let type = unat (drop_bit 4 (binary ! startIndex));
            tinyValue = unat ((binary ! startIndex) AND 15);
            valueInfo = binary ! (startIndex + 1);
            isRemoved = (type = 0);
            isTinyValue = (valueInfo AND 192 = 64);
            isInlineValue = (valueInfo AND 192 = 128);
            isRecordValue = (valueInfo AND 192 = 192);
            child = child\<lparr> ni_type := Some type \<rparr>;
            index = startIndex + 2
        in
          if isRemoved then Inl (Error ''corrupt: removed child data isn't implemented yet'')
          else if isTinyValue
          then (case tiny_value type tinyValue of
                  Inl e \<Rightarrow> Inl e
                | Inr v \<Rightarrow> Inr (child\<lparr> ni_value := Some v \<rparr>, index))
          else if isInlineValue
          then (let len = unat (valueInfo AND 63) + 1
                in if index + len > length binary then Inl TruncatedDataError
                   else (case inline_value bytesToNumber type (take len (drop index binary)) of
                           Inl e \<Rightarrow> Inl e
                         | Inr v \<Rightarrow> Inr (child\<lparr> ni_value := Some v \<rparr>, index + len)))
          else if isRecordValue
          then (if index + 6 > length binary then Inl TruncatedDataError
                else
                  let pageNr_read = getUint32 binary index;
                      recordNr_read = getUint16 binary (index + 4);
                      childPath = childPath_of this_address isArray child;
                      child = child\<lparr> ni_address :=
                                Some (new_NodeAddress childPath (Some pageNr_read) (Some recordNr_read)) \<rparr>
                  in if equals (the (ni_address child)) this_address
                     then Inl (Error ''Circular reference in record data'')
                     else Inr (child, index + 6))
          else Inl (Error ''corrupt''))"

text \<open>
  A child value through \<^verbatim>\<open>_serializeValue\<close>, \<^verbatim>\<open>_getValueBytes\<close> and back through
  \<^verbatim>\<open>getValueFromBinary\<close>: the bytes of the entry are stored as a \<^verbatim>\<open>Uint8Array\<close> and
  decoded from index 0.
\<close>

definition serialize_then_decode ::
  "(real \<Rightarrow> int list) \<Rightarrow> (byte list \<Rightarrow> real) \<Rightarrow> nat \<Rightarrow> (string \<Rightarrow> jsvalue \<Rightarrow> error + NodeAddress)
     \<Rightarrow> NodeAddress \<Rightarrow> bool \<Rightarrow> NodeInfo \<Rightarrow> string \<Rightarrow> keyOrIndex \<Rightarrow> jsvalue
     \<Rightarrow> error + (NodeInfo \<times> nat)" where
  "serialize_then_decode numberToBytes bytesToNumber maxInlineValueSize lockAndWriteNode
     this_address isArray child p keyOrIndex val =
     (case serializeValue numberToBytes maxInlineValueSize lockAndWriteNode p keyOrIndex val of
        Inl e \<Rightarrow> Inl e
      | Inr kvp \<Rightarrow>
          (case getValueBytes kvp of
             Inl e \<Rightarrow> Inl e
           | Inr bytes \<Rightarrow>
               getValueFromBinary bytesToNumber this_address isArray child
                 (new_Uint8Array bytes) 0))"

section \<open>Record header: writing\<close>

definition FLAG_KEY_TREE :: byte where "FLAG_KEY_TREE = 0x40"
definition FLAG_VALUE_TYPE :: byte where "FLAG_VALUE_TYPE = 0xf"

text \<open>\<^verbatim>\<open>class NodeChunkTableRange { constructor(type, pageNr, recordNr, length) }\<close>\<close>

record NodeChunkTableRange =
  ct_type :: nat
  ct_pageNr :: nat
  ct_recordNr :: nat
  ct_length :: nat

text \<open>
  \<^verbatim>\<open>NodeAllocation.toChunkTable()\<close>: a single range of a single record gets type 0;
  otherwise the first range gets type 1 and the others type 2.
\<close>

definition toChunkTable :: "StorageAddressRange list \<Rightarrow> NodeChunkTableRange list" where
  "toChunkTable allocation =
     (let ranges = map (\<lambda>rng. \<lparr> ct_type = 0, ct_pageNr = r_pageNr rng,
                                 ct_recordNr = r_recordNr rng, ct_length = r_length rng \<rparr>)
                       allocation
      in if length ranges = 1 \<and> ct_length (ranges ! 0) = 1
         then [(ranges ! 0)\<lparr> ct_type := 0 \<rparr>]
         else map (\<lambda>(rng, index). if index = 0 then rng\<lparr> ct_type := 1 \<rparr>
                                     else rng\<lparr> ct_type := 2 \<rparr>)
                  (zip ranges [0 ..< length ranges]))"

text \<open>
  \<^verbatim>\<open>calculateStorageNeeds(nrOfChunks)\<close> of \<^verbatim>\<open>_write\<close>, for a body of \<open>bytes_length\<close> bytes
  and records of \<open>bytesPerRecord\<close> bytes (a positive number): the values it leaves in
  \<^verbatim>\<open>headerBytes\<close>, \<^verbatim>\<open>totalBytes\<close>, \<^verbatim>\<open>requiredRecords\<close> and \<^verbatim>\<open>lastChunkSize\<close>.
\<close>

record StorageNeeds =
  headerBytes :: int
  totalBytes :: int
  requiredRecords :: int
  lastChunkSize :: int

definition Math_ceil_div :: "int \<Rightarrow> int \<Rightarrow> int" where
  "Math_ceil_div a b = - ((- a) div b)"

definition calculateStorageNeeds :: "int \<Rightarrow> int \<Rightarrow> int \<Rightarrow> StorageNeeds" where
  "calculateStorageNeeds bytes_length bytesPerRecord nrOfChunks =
     (let headerBytes0 = 4;
          totalBytes0 = bytes_length + headerBytes0;
          requiredRecords0 = Math_ceil_div totalBytes0 bytesPerRecord;
          headerBytes1 = (if requiredRecords0 > 1 then headerBytes0 + 3 + (nrOfChunks - 1) * 9
                          else headerBytes0);
          totalBytes1 = (if requiredRecords0 > 1 then bytes_length + headerBytes1 else totalBytes0);
          requiredRecords1 = (if requiredRecords0 > 1 then Math_ceil_div totalBytes1 bytesPerRecord
                              else requiredRecords0);
          lastChunkSize0 = (if requiredRecords1 = 1 then bytes_length
                            else totalBytes1 mod bytesPerRecord)
      in \<lparr> headerBytes = headerBytes1, totalBytes = totalBytes1,
           requiredRecords = requiredRecords1,
           lastChunkSize = (if lastChunkSize0 = 0 \<and> bytes_length > 0 then bytesPerRecord
                            else lastChunkSize0) \<rparr>)"

text \<open>
  \<^verbatim>\<open>DataView.setUint8\<close>, \<^verbatim>\<open>setUint16\<close> and \<^verbatim>\<open>setUint32\<close> (big-endian) on the header: a
  write that does not fit in the view throws a \<^verbatim>\<open>RangeError\<close>; the number is reduced
  modulo the width.
\<close>

definition dv_setUint8 :: "byte list \<Rightarrow> nat \<Rightarrow> nat \<Rightarrow> error + byte list" where
  "dv_setUint8 view byteOffset v =
     (if byteOffset + 1 > length view then Inl (RangeError ''Offset is outside the bounds of the DataView'')
      else Inr (view[byteOffset := of_nat v]))"

definition dv_setUint16 :: "byte list \<Rightarrow> nat \<Rightarrow> nat \<Rightarrow> error + byte list" where
  "dv_setUint16 view byteOffset v =
     (if byteOffset + 2 > length view then Inl (RangeError ''Offset is outside the bounds of the DataView'')
      else Inr (view[byteOffset := of_nat (v div 2 ^ 8), byteOffset + 1 := of_nat v]))"

definition dv_setUint32 :: "byte list \<Rightarrow> nat \<Rightarrow> nat \<Rightarrow> error + byte list" where
  "dv_setUint32 view byteOffset v =
     (if byteOffset + 4 > length view then Inl (RangeError ''Offset is outside the bounds of the DataView'')
      else Inr (view[byteOffset := of_nat (v div 2 ^ 24), byteOffset + 1 := of_nat (v div 2 ^ 16),
                     byteOffset + 2 := of_nat (v div 2 ^ 8), byteOffset + 3 := of_nat v]))"

text \<open>
  The loop \<^verbatim>\<open>chunkTable.ranges.forEach(range => { ... })\<close> of \<^verbatim>\<open>_write\<close>, on the header
  and the variable \<^verbatim>\<open>offset\<close>. For an entry of type 1 it stores \<^verbatim>\<open>range.length\<close>:
  \<^verbatim>\<open>headerView.setUint16(offset + 1, range.length); offset += 3;\<close>
\<close>

fun write_chunk_table ::
  "NodeChunkTableRange list \<Rightarrow> byte list \<Rightarrow> nat \<Rightarrow> error + (byte list \<times> nat)" where
  "write_chunk_table [] header offset = Inr (header, offset)"
| "write_chunk_table (rng # ranges) header offset =
     (case dv_setUint8 header offset (ct_type rng) of
        Inl e \<Rightarrow> Inl e
      | Inr h1 \<Rightarrow>
          if ct_type rng = 0 then write_chunk_table ranges h1 offset
          else if ct_type rng = 1
          then (case dv_setUint16 h1 (offset + 1) (ct_length rng) of
                  Inl e \<Rightarrow> Inl e
                | Inr h2 \<Rightarrow> write_chunk_table ranges h2 (offset + 3))
          else if ct_type rng = 2
          then (case dv_setUint32 h1 (offset + 1) (ct_pageNr rng) of
                  Inl e \<Rightarrow> Inl e
                | Inr h2 \<Rightarrow>
                    (case dv_setUint16 h2 (offset + 5) (ct_recordNr rng) of
                       Inl e \<Rightarrow> Inl e
                     | Inr h3 \<Rightarrow>
                         (case dv_setUint16 h3 (offset + 7) (ct_length rng) of
                            Inl e \<Rightarrow> Inl e
                          | Inr h4 \<Rightarrow> write_chunk_table ranges h4 (offset + 9))))
          else Inl (Thrown ''Unsupported range type''))"

text \<open>
  The part of \<^verbatim>\<open>_write\<close> that builds the binary header, from
  \<^verbatim>\<open>let header = new Uint8Array(headerBytes)\<close> to the last \<^verbatim>\<open>offset += 2\<close>, for a value type,
  the flag \<^verbatim>\<open>hasKeyTree\<close>, the allocation and \<^verbatim>\<open>lastChunkSize\<close>.
\<close>

definition write_header ::
  "nat \<Rightarrow> nat \<Rightarrow> bool \<Rightarrow> StorageAddressRange list \<Rightarrow> nat \<Rightarrow> error + byte list" where
  "write_header headerBytes_n type hasKeyTree allocation lastChunkSize_n =
     (let header = replicate headerBytes_n 0;
          header = header[0 := of_nat type];
          header = (if hasKeyTree then header[0 := (header ! 0) OR FLAG_KEY_TREE] else header);
          chunkTable = toChunkTable allocation
      in case write_chunk_table chunkTable header 1 of
           Inl e \<Rightarrow> Inl e
         | Inr (h1, offset) \<Rightarrow>
             (case dv_setUint8 h1 offset 0 of
                Inl e \<Rightarrow> Inl e
              | Inr h2 \<Rightarrow> dv_setUint16 h2 (offset + 1) lastChunkSize_n))"

section \<open>Record header: reading\<close>

text \<open>
  The loop of \<^verbatim>\<open>readAllocationTable\<close> in \<^verbatim>\<open>NodeReader.readHeader\<close>, on the variables
  \<^verbatim>\<open>data\<close>, \<^verbatim>\<open>offset\<close>, \<^verbatim>\<open>ranges\<close> (whose first element is \<^verbatim>\<open>firstRange\<close>) and
  \<^verbatim>\<open>readingRecordIndex\<close>. \<open>readRecord pageNr recordNr\<close> stands for the bytes that
  \<^verbatim>\<open>this.storage.readData\<close> reads from the record at that address, and \<open>pageSize\<close> for
  \<^verbatim>\<open>this.storage.settings.pageSize\<close>. For an entry of type 1 the length of the first range
  is what the entry holds: \<^verbatim>\<open>firstRange.length = view.getUint16(offset + 1)\<close>. An entry
  type above 3 matches no branch, and the \<^verbatim>\<open>while (true)\<close> loop goes round with nothing
  changed: the function has no result (\<open>None\<close>) then.
\<close>

partial_function (option) readAllocationTable ::
  "(nat \<Rightarrow> nat \<Rightarrow> byte list) \<Rightarrow> nat \<Rightarrow> byte list \<Rightarrow> nat \<Rightarrow> StorageAddressRange list \<Rightarrow> nat
     \<Rightarrow> (error + (byte list \<times> nat \<times> StorageAddressRange list)) option" where
  "readAllocationTable readRecord pageSize data offset ranges readingRecordIndex =
     (if offset + 9 + 2 \<ge> length data
      then (if readingRecordIndex + 1 \<ge> length (addresses ranges)
            then Some (Inl (TypeError ''Cannot read properties of undefined''))
            else readAllocationTable readRecord pageSize
                   (data @ readRecord (fst (addresses ranges ! (readingRecordIndex + 1)))
                                      (snd (addresses ranges ! (readingRecordIndex + 1))))
                   offset ranges (readingRecordIndex + 1))
      else if unat (data ! offset) = 0
      then Some (Inr (data, offset + 1, ranges))
      else if unat (data ! offset) = 1
      then readAllocationTable readRecord pageSize data (offset + 3)
             (ranges[0 := (ranges ! 0)\<lparr> r_length := getUint16 data (offset + 1) \<rparr>])
             readingRecordIndex
      else if unat (data ! offset) = 2
      then readAllocationTable readRecord pageSize data (offset + 9)
             (ranges @ [\<lparr> r_pageNr = getUint32 data (offset + 1),
                          r_recordNr = getUint16 data (offset + 5),
                          r_length = getUint16 data (offset + 7) \<rparr>])
             readingRecordIndex
      else if unat (data ! offset) = 3
      then readAllocationTable readRecord pageSize data (offset + 7)
             (ranges @ [\<lparr> r_pageNr = getUint32 data (offset + 1),
                          r_recordNr = 0,
                          r_length = getUint16 data (offset + 5) * pageSize \<rparr>])
             readingRecordIndex
      else readAllocationTable readRecord pageSize data offset ranges readingRecordIndex)"

text \<open>
  \<^verbatim>\<open>class RecordInfo\<close>, as \<^verbatim>\<open>readHeader\<close> fills it (the path is that of the reader's
  address).
\<close>

record RecordInfo =
  ri_hasKeyIndex :: bool
  ri_valueType :: nat
  ri_allocation :: "StorageAddressRange list"
  ri_headerLength :: nat
  ri_lastRecordLength :: nat
  ri_bytesPerRecord :: nat
  ri_startData :: "byte list"

text \<open>
  \<^verbatim>\<open>NodeReader.readHeader()\<close> for the reader's address \<open>(pageNr, recordNr)\<close>; the first
  record is read from the storage, then the chunk table, then the length of the last
  record. \<open>None\<close>: the function does not return.
\<close>

definition readHeader ::
  "(nat \<Rightarrow> nat \<Rightarrow> byte list) \<Rightarrow> nat \<Rightarrow> nat \<Rightarrow> nat \<Rightarrow> nat \<Rightarrow> (error + RecordInfo) option" where
  "readHeader readRecord pageSize bytesPerRecord this_pageNr this_recordNr =
     (let data = readRecord this_pageNr this_recordNr;
          hasKeyIndex = ((data ! 0) AND FLAG_KEY_TREE = FLAG_KEY_TREE);
          valueType = unat ((data ! 0) AND FLAG_VALUE_TYPE);
          firstRange = \<lparr> r_pageNr = this_pageNr, r_recordNr = this_recordNr, r_length = 1 \<rparr>
      in case readAllocationTable readRecord pageSize data 1 [firstRange] 0 of
           None \<Rightarrow> None
         | Some (Inl e) \<Rightarrow> Some (Inl e)
         | Some (Inr (data, offset, ranges)) \<Rightarrow>
             (let lastRecordDataLength = getUint16 data offset;
                  headerLength = offset + 2;
                  firstRecordDataLength =
                    (if length ranges = 1 \<and> r_length (ranges ! 0) = 1 then lastRecordDataLength
                     else bytesPerRecord - headerLength)
              in Some (Inr \<lparr> ri_hasKeyIndex = hasKeyIndex, ri_valueType = valueType,
                              ri_allocation = ranges, ri_headerLength = headerLength,
                              ri_lastRecordLength = lastRecordDataLength,
                              ri_bytesPerRecord = bytesPerRecord,
                              ri_startData =
                                take firstRecordDataLength (drop headerLength data) \<rparr>)))"

section \<open>Linear layout or key tree\<close>

definition BINARY_TREE_FILL_FACTOR_50 :: nat where "BINARY_TREE_FILL_FACTOR_50 = 50"
definition BINARY_TREE_FILL_FACTOR_95 :: nat where "BINARY_TREE_FILL_FACTOR_95 = 95"
definition minKeysForTreeCreation :: nat where "minKeysForTreeCreation = 100"

text \<open>\<^verbatim>\<open>/^[0-9]+$/.test(key)\<close>: the key is not empty and all its characters are digits.\<close>

definition is_digits :: "string \<Rightarrow> bool" where
  "is_digits s = (s \<noteq> [] \<and> list_all (\<lambda>c. c \<in> set ''0123456789'') s)"

text \<open>
  The test of \<^verbatim>\<open>_writeNode\<close> on a serialized child:
  \<^verbatim>\<open>typeof kvp.index === 'number' || (typeof kvp.key === 'string' && /^[0-9]+$/.test(kvp.key))\<close>
\<close>

definition kvp_numeric :: "SerializedKeyValue \<Rightarrow> bool" where
  "kvp_numeric kvp =
     (kv_index kvp \<noteq> None \<or> (case kv_key kvp of None \<Rightarrow> False | Some k \<Rightarrow> is_digits k))"

text \<open>
  The tree branch of \<^verbatim>\<open>_writeNode\<close>: \<^verbatim>\<open>_getValueBytes\<close> of every serialized child, in
  order, paired with \<^verbatim>\<open>kvp.key\<close> for \<^verbatim>\<open>builder.add(kvp.key, binaryValue)\<close>; the first
  error is thrown.
\<close>

fun tree_entries :: "SerializedKeyValue list \<Rightarrow> error + (string option \<times> int list) list" where
  "tree_entries [] = Inr []"
| "tree_entries (kvp # serialized) =
     (case getValueBytes kvp of
        Inl e \<Rightarrow> Inl e
      | Inr binaryValue \<Rightarrow>
          (case tree_entries serialized of
             Inl e \<Rightarrow> Inl e
           | Inr entries \<Rightarrow> Inr ((kv_key kvp, binaryValue) # entries)))"

text \<open>
  The linear branch of \<^verbatim>\<open>_writeNode\<close>, for one serialized child: the key info (objects
  only) and the bytes of the value. \<open>getOrAdd\<close> stands for \<^verbatim>\<open>storage.KIT.getOrAdd\<close>, which
  gives the index of the key in the key index table, or a negative number. Keys are
  strings of characters with codes up to 255, so the test \<^verbatim>\<open>charCode > 255\<close> never fires.
\<close>

definition linear_entry ::
  "(string \<Rightarrow> int) \<Rightarrow> bool \<Rightarrow> SerializedKeyValue \<Rightarrow> error + int list" where
  "linear_entry getOrAdd isArray kvp =
     (if isArray then getValueBytes kvp
      else
        (case kv_key kvp of
           None \<Rightarrow> Inl (TypeError ''Cannot read properties of undefined'')
         | Some key \<Rightarrow>
             if length key > 128 then Inl (Thrown ''Key is too long to store. Max length=128'')
             else
               (let keyIndex = getOrAdd key;
                    key_info =
                      (if keyIndex \<ge> 0
                       then [128 OR ((drop_bit 8 keyIndex) AND 127), keyIndex AND 255]
                       else (int (length key) - 1) # map (\<lambda>c. int (of_char c)) key)
                in case getValueBytes kvp of
                     Inl e \<Rightarrow> Inl e
                   | Inr binaryValue \<Rightarrow> Inr (key_info @ binaryValue))))"

text \<open>
  \<^verbatim>\<open>serialized.reduce((binary, kvp) => ..., new Uint8Array())\<close>: the entries one after the
  other, each stored as a \<^verbatim>\<open>Uint8Array\<close>.
\<close>

fun linear_data ::
  "(string \<Rightarrow> int) \<Rightarrow> bool \<Rightarrow> SerializedKeyValue list \<Rightarrow> byte list \<Rightarrow> error + byte list" where
  "linear_data getOrAdd isArray [] binary = Inr binary"
| "linear_data getOrAdd isArray (kvp # serialized) binary =
     (case linear_entry getOrAdd isArray kvp of
        Inl e \<Rightarrow> Inl e
      | Inr bytes \<Rightarrow> linear_data getOrAdd isArray serialized (binary @ new_Uint8Array bytes))"

text \<open>
  The last step of \<^verbatim>\<open>_writeNode\<close>, once all children are serialized (the function given
  to \<^verbatim>\<open>Promise.all(childPromises).then\<close>): it gives the value type, the body and the flag
  \<^verbatim>\<open>keyTree\<close> that are handed to \<^verbatim>\<open>_write\<close>. \<^verbatim>\<open>BPlusTreeBuilder\<close> comes from \<^verbatim>\<open>./btree\<close>,
  which is not part of the sources at hand: \<open>buildTree fillFactor entries\<close> stands for the
  bytes of \<^verbatim>\<open>builder.create().toBinary(true)\<close> after
  \<^verbatim>\<open>new BPlusTreeBuilder(true, fillFactor)\<close> and one \<^verbatim>\<open>builder.add\<close> per entry.
\<close>

definition writeNode_body ::
  "(nat \<Rightarrow> (string option \<times> int list) list \<Rightarrow> int list) \<Rightarrow> (string \<Rightarrow> int) \<Rightarrow> bool
     \<Rightarrow> SerializedKeyValue list \<Rightarrow> error + (nat \<times> byte list \<times> bool)" where
  "writeNode_body buildTree getOrAdd isArray serialized =
     (if length serialized > minKeysForTreeCreation
      then
        (let fillFactor = (if list_all kvp_numeric serialized then BINARY_TREE_FILL_FACTOR_50
                           else BINARY_TREE_FILL_FACTOR_95)
         in case tree_entries serialized of
              Inl e \<Rightarrow> Inl e
            | Inr entries \<Rightarrow>
                Inr (if isArray then VT_ARRAY else VT_OBJECT,
                     new_Uint8Array (buildTree fillFactor entries), True))
      else
        (case linear_data getOrAdd isArray serialized [] of
           Inl e \<Rightarrow> Inl e
         | Inr data \<Rightarrow> Inr (if isArray then VT_ARRAY else VT_OBJECT, data, False)))"

section \<open>Rebuilding the key tree on merge\<close>

text \<open>\<^verbatim>\<open>class NodeChange\<close>, once \<^verbatim>\<open>_mergeNode\<close> has turned the old and the new value into
  the bytes of \<^verbatim>\<open>_getValueBytes\<close>; \<open>None\<close> is \<^verbatim>\<open>null\<close>.\<close>

datatype CHANGE_TYPE = UPDATE | DELETE | INSERT

record NodeChange =
  ch_keyOrIndex :: keyOrIndex
  ch_changeType :: CHANGE_TYPE
  ch_oldValue :: "int list option"
  ch_newValue :: "int list option"

text \<open>\<^verbatim>\<open>NodeChangeTracker\<close>: \<^verbatim>\<open>updates\<close>, \<^verbatim>\<open>deletes\<close> and \<^verbatim>\<open>inserts\<close> of the list \<^verbatim>\<open>all\<close>.\<close>

definition updates :: "NodeChange list \<Rightarrow> NodeChange list" where
  "updates changes = filter (\<lambda>change. ch_changeType change = UPDATE) changes"

definition deletes :: "NodeChange list \<Rightarrow> NodeChange list" where
  "deletes changes = filter (\<lambda>change. ch_changeType change = DELETE) changes"

definition inserts :: "NodeChange list \<Rightarrow> NodeChange list" where
  "inserts changes = filter (\<lambda>change. ch_changeType change = INSERT) changes"

text \<open>
  The test of \<^verbatim>\<open>_mergeNode\<close> on a change:
  \<^verbatim>\<open>typeof ch.keyOrIndex === 'number' || (typeof ch.keyOrIndex === 'string' &&
  /^[0-9]+$/.test(ch.keyOrIndex))\<close>
\<close>

definition change_numeric :: "NodeChange \<Rightarrow> bool" where
  "change_numeric ch = (case ch_keyOrIndex ch of Index i \<Rightarrow> True | Key k \<Rightarrow> is_digits k)"

text \<open>
  Modelled from the spec: \<^verbatim>\<open>BinaryBPlusTree.toTreeBuilder\<close> and \<^verbatim>\<open>BPlusTreeBuilder\<close> of
  \<^verbatim>\<open>./btree\<close> are missing. The spec says that \<^verbatim>\<open>toTreeBuilder(fillFactor)\<close> enumerates all
  entries of the tree into an in-memory builder, to which the pending changes are then
  applied. The builder is its fill factor and its entries; \<^verbatim>\<open>remove\<close> drops the entry of
  a key, \<^verbatim>\<open>add\<close> appends one.
\<close>

record TreeBuilder =
  tb_fillFactor :: nat
  tb_entries :: "(keyOrIndex \<times> int list) list"

definition toTreeBuilder :: "(keyOrIndex \<times> int list) list \<Rightarrow> nat \<Rightarrow> TreeBuilder" where
  "toTreeBuilder entries_of_tree fillFactor =
     \<lparr> tb_fillFactor = fillFactor, tb_entries = entries_of_tree \<rparr>"

definition builder_remove :: "TreeBuilder \<Rightarrow> keyOrIndex \<Rightarrow> int list option \<Rightarrow> TreeBuilder" where
  "builder_remove builder key v =
     builder\<lparr> tb_entries := filter (\<lambda>(k, v'). k \<noteq> key) (tb_entries builder) \<rparr>"

definition builder_add :: "TreeBuilder \<Rightarrow> keyOrIndex \<Rightarrow> int list option \<Rightarrow> TreeBuilder" where
  "builder_add builder key v =
     builder\<lparr> tb_entries := tb_entries builder @ [(key, case v of None \<Rightarrow> [] | Some bs \<Rightarrow> bs)] \<rparr>"

text \<open>
  The handler of \<^verbatim>\<open>_mergeNode\<close> that rebuilds the tree when \<^verbatim>\<open>tree.transaction\<close> has
  failed, up to \<^verbatim>\<open>builder.create()\<close>: the fill factor is chosen from the keys of the
  changes (\<^verbatim>\<open>changes.all.every(...)\<close>), the builder is made from the tree with it, and
  the changes are processed again. The bytes of the new tree are then written by
  \<^verbatim>\<open>_write\<close> with \<^verbatim>\<open>hasKeyTree\<close> true.
\<close>

definition mergeNode_rebuild :: "(keyOrIndex \<times> int list) list \<Rightarrow> NodeChange list \<Rightarrow> TreeBuilder" where
  "mergeNode_rebuild entries_of_tree changes =
     (let fillFactor = (if list_all change_numeric changes then BINARY_TREE_FILL_FACTOR_50
                        else BINARY_TREE_FILL_FACTOR_95);
          builder = toTreeBuilder entries_of_tree fillFactor;
          builder = foldl (\<lambda>builder change.
                             builder_remove builder (ch_keyOrIndex change) (ch_oldValue change))
                      builder (deletes changes);
          builder = foldl (\<lambda>builder change.
                             builder_add
                               (builder_remove builder (ch_keyOrIndex change) (ch_oldValue change))
                               (ch_keyOrIndex change) (ch_newValue change))
                      builder (updates changes);
          builder = foldl (\<lambda>builder change.
                             builder_add builder (ch_keyOrIndex change) (ch_newValue change))
                      builder (inserts changes)
      in builder)"

text \<open>Whether a key of the tree looks numeric: an array index, or a string of digits.\<close>

definition key_numeric :: "keyOrIndex \<Rightarrow> bool" where
  "key_numeric k = (case k of Index i \<Rightarrow> True | Key s \<Rightarrow> is_digits s)"

section \<open>Node locks\<close>

text \<open>\<^verbatim>\<open>NodeLock.LOCK_STATE\<close>\<close>

datatype LOCK_STATE = PENDING | LOCKED | EXPIRED | DONE

text \<open>
  \<^verbatim>\<open>class NodeLock\<close>. \<open>lk_waitingFor\<close> is a reference to another lock object, or \<open>None\<close>
  for \<^verbatim>\<open>null\<close>; \<open>lk_granted\<close> and \<open>lk_expires\<close> are \<open>None\<close> while \<^verbatim>\<open>undefined\<close>. Times are
  the milliseconds of \<^verbatim>\<open>Date.now()\<close>. The timer of a granted lock (\<^verbatim>\<open>setTimeout\<close>) and the
  functions \<^verbatim>\<open>resolve\<close> and \<^verbatim>\<open>reject\<close> of a waiting request are not represented.
\<close>

record NodeLock =
  lk_tid :: string
  lk_path :: string
  lk_forWriting :: bool
  lk_priority :: bool
  lk_state :: LOCK_STATE
  lk_requested :: nat
  lk_granted :: "nat option"
  lk_expires :: "nat option"
  lk_comment :: string
  lk_waitingFor :: "nat option"

text \<open>
  The lock objects and the array \<^verbatim>\<open>_locks\<close>. Lock objects are shared and mutated in
  place, and a lock can point to a lock that has left \<^verbatim>\<open>_locks\<close>, so the objects are kept
  in a store: a reference is a position in \<open>heap\<close>, a new object is appended to it and no
  object is ever taken out; \<open>locks\<close> is \<^verbatim>\<open>_locks\<close>, a list of references.
\<close>

record lock_store =
  heap :: "NodeLock list"
  locks :: "nat list"

definition LOCK_TIMEOUT :: nat where
  "LOCK_TIMEOUT = 15 * 60000"

text \<open>
  What a call hands back: a promise that is resolved with a value, rejected with a
  reason (a rejection with a string is \<open>Rejected (Thrown s)\<close>), or left pending.
\<close>

datatype 'a promise = Resolved 'a | Rejected error | Pending

text \<open>
  The piece \<^verbatim>\<open>"/${path}"\<close> of the template strings of comments and messages: the path
  after a slash, between double quotes.
\<close>

definition quoted :: "string \<Rightarrow> string" where
  "quoted p = [CHR 0x22] @ ''/'' @ p @ [CHR 0x22]"

text \<open>
  The predicate given to \<^verbatim>\<open>find\<close> in \<^verbatim>\<open>_allowLock\<close>: the other lock clashes with the
  requested one if one of them is for writing, and the requested path is the path of
  the other lock or a descendant of it.
\<close>

definition clashes ::
  "(string \<Rightarrow> 'k list) \<Rightarrow> NodeLock list \<Rightarrow> string \<Rightarrow> bool \<Rightarrow> nat \<Rightarrow> bool" where
  "clashes getPathKeys h p forWriting otherLock =
     ((forWriting \<or> lk_forWriting (h ! otherLock))
      \<and> (p = lk_path (h ! otherLock) \<or> isDescendantOf getPathKeys p (lk_path (h ! otherLock))))"

text \<open>
  \<^verbatim>\<open>_allowLock(path, tid, forWriting)\<close>: the pair of \<^verbatim>\<open>allow\<close> and \<^verbatim>\<open>conflict\<close>, the latter
  \<open>None\<close> when \<^verbatim>\<open>find\<close> gives \<^verbatim>\<open>undefined\<close>.
\<close>

definition allowLock ::
  "(string \<Rightarrow> 'k list) \<Rightarrow> lock_store \<Rightarrow> string \<Rightarrow> string \<Rightarrow> bool \<Rightarrow> bool \<times> nat option" where
  "allowLock getPathKeys st p tid forWriting =
     (let conflict =
            List.find (clashes getPathKeys (heap st) p forWriting)
              (filter (\<lambda>otherLock. lk_tid (heap st ! otherLock) \<noteq> tid
                                   \<and> lk_state (heap st ! otherLock) = LOCKED)
                      (locks st))
      in (conflict = None, conflict))"

text \<open>
  The block \<^verbatim>\<open>if (proceed) { ... }\<close> of \<^verbatim>\<open>NodeLock.lock\<close>, on the lock object \<open>r\<close>: the
  state becomes \<^verbatim>\<open>LOCKED\<close>; a lock that was not granted before gets its \<^verbatim>\<open>granted\<close> time
  and, unless \<^verbatim>\<open>options.noTimeout\<close> is true, its \<^verbatim>\<open>expires\<close> time.
\<close>

definition grant :: "nat \<Rightarrow> bool \<Rightarrow> lock_store \<Rightarrow> nat \<Rightarrow> lock_store" where
  "grant now noTimeout st r =
     (let lock = (heap st ! r)\<lparr> lk_state := LOCKED \<rparr>;
          lock = (case lk_granted lock of
                    Some t \<Rightarrow> lock
                  | None \<Rightarrow>
                      (let lock = lock\<lparr> lk_granted := Some now \<rparr>
                       in if noTimeout then lock
                          else lock\<lparr> lk_expires := Some (now + LOCK_TIMEOUT) \<rparr>))
      in st\<lparr> heap := (heap st)[r := lock] \<rparr>)"

text \<open>
  The first argument of \<^verbatim>\<open>NodeLock.lock\<close> is a path, or a lock object that is tried again
  (\<^verbatim>\<open>path instanceof NodeLock\<close>).
\<close>

datatype lock_target = Path string | Retry nat

text \<open>
  \<^verbatim>\<open>NodeLock.lock(path, tid, forWriting, comment, { withPriority, noTimeout })\<close> at the time
  \<open>now\<close>. The result is the promise (resolved with the reference of the lock, rejected,
  or pending) and the store after the call. A new lock object gets the next free
  reference, \<open>length (heap st)\<close>.
\<close>

definition NodeLock_lock ::
  "(string \<Rightarrow> 'k list) \<Rightarrow> nat \<Rightarrow> lock_store \<Rightarrow> lock_target \<Rightarrow> string \<Rightarrow> bool \<Rightarrow> string \<Rightarrow> bool \<Rightarrow> bool
     \<Rightarrow> nat promise \<times> lock_store" where
  "NodeLock_lock getPathKeys now st target tid forWriting comment withPriority noTimeout =
     (case target of
        Retry r \<Rightarrow>
          (let lock = (heap st ! r)\<lparr> lk_comment := ''(retry: '' @ lk_comment (heap st ! r) @ '')'' \<rparr>;
               st = st\<lparr> heap := (heap st)[r := lock] \<rparr>
           in (Resolved r, grant now noTimeout st r))
      | Path p \<Rightarrow>
          if list_ex (\<lambda>l. lk_tid (heap st ! l) = tid \<and> lk_state (heap st ! l) = EXPIRED) (locks st)
          then (Rejected (Thrown (''lock on tid '' @ tid @ '' has expired, not allowed to continue'')),
                st)
          else
            (let r = length (heap st);
                 lock = \<lparr> lk_tid = tid, lk_path = p, lk_forWriting = forWriting,
                          lk_priority = withPriority, lk_state = PENDING, lk_requested = now,
                          lk_granted = None, lk_expires = None, lk_comment = comment,
                          lk_waitingFor = None \<rparr>;
                 st = st\<lparr> heap := heap st @ [lock], locks := locks st @ [r] \<rparr>;
                 check = allowLock getPathKeys st p tid forWriting;
                 st = st\<lparr> heap := (heap st)[r := (heap st ! r)\<lparr> lk_waitingFor := snd check \<rparr>] \<rparr>
             in if fst check then (Resolved r, grant now noTimeout st r)
                else (Pending, st)))"

text \<open>
  The filter of \<^verbatim>\<open>_processLockQueue\<close>: the pending locks of \<^verbatim>\<open>_locks\<close> that wait for no
  lock, or for a lock that is not \<^verbatim>\<open>LOCKED\<close> any more.
\<close>

definition pending_locks :: "lock_store \<Rightarrow> nat list" where
  "pending_locks st =
     filter (\<lambda>l. lk_state (heap st ! l) = PENDING
                  \<and> (case lk_waitingFor (heap st ! l) of
                        None \<Rightarrow> True
                      | Some w \<Rightarrow> lk_state (heap st ! w) \<noteq> LOCKED))
            (locks st)"

text \<open>
  The loop \<^verbatim>\<open>pending.forEach(lock => { ... })\<close> of \<^verbatim>\<open>_processLockQueue\<close>: each lock is
  checked again, and granted through \<^verbatim>\<open>NodeLock.lock(lock)\<close> when nothing clashes.
\<close>

fun process_pending :: "(string \<Rightarrow> 'k list) \<Rightarrow> nat \<Rightarrow> lock_store \<Rightarrow> nat list \<Rightarrow> lock_store" where
  "process_pending getPathKeys now st [] = st"
| "process_pending getPathKeys now st (l # pending) =
     (let check = allowLock getPathKeys st (lk_path (heap st ! l)) (lk_tid (heap st ! l))
                    (lk_forWriting (heap st ! l));
          st = st\<lparr> heap := (heap st)[l := (heap st ! l)\<lparr> lk_waitingFor := snd check \<rparr>] \<rparr>;
          st = (if fst check
                then snd (NodeLock_lock getPathKeys now st (Retry l) [] True [] False False)
                else st)
      in process_pending getPathKeys now st pending)"

text \<open>
  \<^verbatim>\<open>_processLockQueue()\<close>. The comparison function given to \<^verbatim>\<open>sort\<close> answers -1 or 1 on
  the priorities and otherwise the boolean \<^verbatim>\<open>a.requested < b.requested\<close>, which is not a
  consistent comparison: the order of the sorted array depends on the JavaScript engine.
  It is the parameter \<open>sorted_pending\<close>, from the lock objects and the filtered list.
\<close>

definition processLockQueue ::
  "(NodeLock list \<Rightarrow> nat list \<Rightarrow> nat list) \<Rightarrow> (string \<Rightarrow> 'k list) \<Rightarrow> nat \<Rightarrow> lock_store \<Rightarrow> lock_store" where
  "processLockQueue sorted_pending getPathKeys now st =
     process_pending getPathKeys now st (sorted_pending (heap st) (pending_locks st))"

text \<open>
  \<^verbatim>\<open>NodeLock.unlock(lock, comment, processQueue)\<close>: a lock that is not in \<^verbatim>\<open>_locks\<close> gives a
  rejected promise and changes nothing; otherwise the lock is \<^verbatim>\<open>DONE\<close>, leaves \<^verbatim>\<open>_locks\<close>
  (\<^verbatim>\<open>_locks.splice(i, 1)\<close> at its first position), and the queue is processed.
  \<^verbatim>\<open>lock.release(comment)\<close> is \<^verbatim>\<open>NodeLock.unlock(lock, comment || this.comment)\<close>.
\<close>

definition NodeLock_unlock ::
  "(NodeLock list \<Rightarrow> nat list \<Rightarrow> nat list) \<Rightarrow> (string \<Rightarrow> 'k list) \<Rightarrow> nat \<Rightarrow> lock_store \<Rightarrow> nat \<Rightarrow> string
     \<Rightarrow> bool \<Rightarrow> nat promise \<times> lock_store" where
  "NodeLock_unlock sorted_pending getPathKeys now st lock comment processQueue =
     (if lock \<notin> set (locks st)
      then (Rejected (Error (''lock on '' @ quoted (lk_path (heap st ! lock)) @ '' for tid ''
                             @ lk_tid (heap st ! lock) @ '' wasn't found; '' @ comment)), st)
      else
        (let st = st\<lparr> heap := (heap st)[lock := (heap st ! lock)\<lparr> lk_state := DONE \<rparr>],
                      locks := remove1 lock (locks st) \<rparr>
         in (Resolved lock,
             if processQueue then processLockQueue sorted_pending getPathKeys now st else st)))"

text \<open>
  \<^verbatim>\<open>lock.moveTo(otherPath, forWriting)\<close>: when nothing clashes on the other path the lock
  object is changed in place; otherwise the lock is released without processing the
  queue and a new lock on the other path is requested with priority.
\<close>

definition NodeLock_moveTo ::
  "(NodeLock list \<Rightarrow> nat list \<Rightarrow> nat list) \<Rightarrow> (string \<Rightarrow> 'k list) \<Rightarrow> nat \<Rightarrow> lock_store \<Rightarrow> nat \<Rightarrow> string
     \<Rightarrow> bool \<Rightarrow> nat promise \<times> lock_store" where
  "NodeLock_moveTo sorted_pending getPathKeys now st this otherPath forWriting =
     (let check = allowLock getPathKeys st otherPath (lk_tid (heap st ! this))
                    (lk_forWriting (heap st ! this))
      in if fst check
         then (Resolved this,
               st\<lparr> heap := (heap st)[this := (heap st ! this)
                      \<lparr> lk_waitingFor := None, lk_path := otherPath, lk_forWriting := forWriting,
                        lk_comment := ''moved to '' @ quoted otherPath @ '': ''
                                        @ lk_comment (heap st ! this) \<rparr>] \<rparr>)
         else
           (let st = snd (NodeLock_unlock sorted_pending getPathKeys now st this
                            (''moving to '' @ quoted otherPath @ '': '' @ lk_comment (heap st ! this))
                            False)
            in NodeLock_lock getPathKeys now st (Path otherPath) (lk_tid (heap st ! this)) forWriting
                 (''moved to '' @ quoted otherPath @ '' (queued): '' @ lk_comment (heap st ! this))
                 True False))"

text \<open>
  The conflict of the grant policy, in the words of the specification: an existing lock
  conflicts with a request when its transaction id differs from the requesting one, its
  state is \<^verbatim>\<open>LOCKED\<close>, its path equals or is an ancestor of the requested path, and at least
  one of the existing and the requested lock is for writing.
\<close>

definition conflicts_with_request ::
  "(string \<Rightarrow> 'k list) \<Rightarrow> NodeLock \<Rightarrow> string \<Rightarrow> string \<Rightarrow> bool \<Rightarrow> bool" where
  "conflicts_with_request getPathKeys existing p tid forWriting =
     (lk_tid existing \<noteq> tid \<and> lk_state existing = LOCKED
      \<and> (lk_path existing = p \<or> isAncestorOf getPathKeys (lk_path existing) p)
      \<and> (lk_forWriting existing \<or> forWriting))"

text \<open>A lock of the transaction in \<^verbatim>\<open>_locks\<close> has expired.\<close>

definition tid_has_expired :: "lock_store \<Rightarrow> string \<Rightarrow> bool" where
  "tid_has_expired st tid =
     list_ex (\<lambda>l. lk_tid (heap st ! l) = tid \<and> lk_state (heap st ! l) = EXPIRED) (locks st)"

text \<open>
  The store is well formed: every reference in \<^verbatim>\<open>_locks\<close> is the reference of a lock
  object, and no lock object is in \<^verbatim>\<open>_locks\<close> twice (a lock is pushed once, when it is
  made).
\<close>

definition references_valid :: "lock_store \<Rightarrow> bool" where
  "references_valid st = (list_all (\<lambda>l. l < length (heap st)) (locks st) \<and> distinct (locks st))"

section \<open>Node.update: the write and its error handler\<close>

text \<open>
  The handler at the end of the promise chain of \<^verbatim>\<open>Node.update\<close>:
  \<^verbatim>\<open>.catch(err => { debug.error(...); eventDataLock && eventDataLock.release(...);
  lock && lock.release(`Node.update: error`); return false; })\<close>. The variable
  \<^verbatim>\<open>eventDataLock\<close> is never assigned. \<open>lock_var\<close> is the value of the variable \<^verbatim>\<open>lock\<close>
  when the error is caught (\<open>None\<close> while it is \<^verbatim>\<open>undefined\<close>). The handler returns
  \<^verbatim>\<open>false\<close>, so the promise of \<^verbatim>\<open>Node.update\<close> is resolved with \<^verbatim>\<open>false\<close>.
\<close>

definition update_catch ::
  "(NodeLock list \<Rightarrow> nat list \<Rightarrow> nat list) \<Rightarrow> (string \<Rightarrow> 'k list) \<Rightarrow> nat \<Rightarrow> error \<Rightarrow> nat option
     \<Rightarrow> lock_store \<Rightarrow> bool promise \<times> lock_store" where
  "update_catch sorted_pending getPathKeys now err lock_var st =
     (Resolved False,
      case lock_var of
        None \<Rightarrow> st
      | Some lock \<Rightarrow>
          snd (NodeLock_unlock sorted_pending getPathKeys now st lock ''Node.update: error'' True))"

text \<open>
  The two steps of the chain of \<^verbatim>\<open>Node.update\<close> that follow \<^verbatim>\<open>Node.locate(storage, path)\<close>,
  with the handler: \<^verbatim>\<open>_mergeNode\<close> when the node exists, has its own record and
  \<^verbatim>\<open>options.merge\<close> is set, \<^verbatim>\<open>_createNode\<close> otherwise; then the step that updates the
  parent, releases the lock and the old allocation, fires the events and returns
  \<^verbatim>\<open>true\<close>. \<^verbatim>\<open>_mergeNode\<close> and \<^verbatim>\<open>_createNode\<close> read and write the storage: they are the
  parameters \<open>mergeNode\<close> and \<open>createNode\<close>, which give the result or the error of their
  promise and the lock store they leave. The last step is the parameter \<open>finish\<close>, which
  also gives the value of the variable \<^verbatim>\<open>lock\<close> at its end.
\<close>

definition Node_update_write ::
  "(NodeLock list \<Rightarrow> nat list \<Rightarrow> nat list) \<Rightarrow> (string \<Rightarrow> 'k list) \<Rightarrow> nat
     \<Rightarrow> (NodeInfo \<Rightarrow> jsvalue \<Rightarrow> nat \<Rightarrow> lock_store \<Rightarrow> (error + 'r) \<times> lock_store)
     \<Rightarrow> (NodeInfo \<Rightarrow> jsvalue \<Rightarrow> nat \<Rightarrow> lock_store \<Rightarrow> (error + 'r) \<times> lock_store)
     \<Rightarrow> ('r \<Rightarrow> nat \<Rightarrow> lock_store \<Rightarrow> (error + bool) \<times> nat option \<times> lock_store)
     \<Rightarrow> NodeInfo \<Rightarrow> jsvalue \<Rightarrow> bool \<Rightarrow> nat \<Rightarrow> lock_store \<Rightarrow> bool promise \<times> lock_store" where
  "Node_update_write sorted_pending getPathKeys now mergeNode createNode finish
     nodeInfo val merge lock st =
     (case (if ni_exists nodeInfo \<and> ni_address nodeInfo \<noteq> None \<and> merge
            then mergeNode nodeInfo val lock st
            else createNode nodeInfo val lock st) of
        (Inl err, st1) \<Rightarrow> update_catch sorted_pending getPathKeys now err (Some lock) st1
      | (Inr result, st1) \<Rightarrow>
          (case finish result lock st1 of
             (Inl err, lock_var, st2) \<Rightarrow> update_catch sorted_pending getPathKeys now err lock_var st2
           | (Inr done, lock_var, st2) \<Rightarrow> (Resolved done, st2)))"

text \<open>
  The chain of \<^verbatim>\<open>Node.update\<close> from its first step, for a value that is not \<^verbatim>\<open>null\<close> and
  does not fit inline (those two cases are calls of \<^verbatim>\<open>Node.update\<close> on the parent):
  the lock on \<^verbatim>\<open>topEventPath\<close>, \<^verbatim>\<open>Node.locate\<close>, the read of the current value unless the
  node does not exist or the update is internal, \<^verbatim>\<open>lock.moveTo(path, true)\<close>,
  \<^verbatim>\<open>Node.locate\<close>, then the write. \<^verbatim>\<open>Node.locate\<close> and \<^verbatim>\<open>reader.getValue\<close> are the
  parameters \<open>locate\<close> and \<open>getValue\<close>. Where a lock has to wait, the chain goes on when
  the lock is granted: the promise is \<open>Pending\<close> at the end of the call.
\<close>

definition Node_update_chain ::
  "(NodeLock list \<Rightarrow> nat list \<Rightarrow> nat list) \<Rightarrow> (string \<Rightarrow> 'k list) \<Rightarrow> nat
     \<Rightarrow> (string \<Rightarrow> lock_store \<Rightarrow> (error + NodeInfo) \<times> lock_store)
     \<Rightarrow> (NodeInfo \<Rightarrow> nat \<Rightarrow> lock_store \<Rightarrow> (error + jsvalue) \<times> lock_store)
     \<Rightarrow> (NodeInfo \<Rightarrow> jsvalue \<Rightarrow> nat \<Rightarrow> lock_store \<Rightarrow> (error + 'r) \<times> lock_store)
     \<Rightarrow> (NodeInfo \<Rightarrow> jsvalue \<Rightarrow> nat \<Rightarrow> lock_store \<Rightarrow> (error + 'r) \<times> lock_store)
     \<Rightarrow> ('r \<Rightarrow> nat \<Rightarrow> lock_store \<Rightarrow> (error + bool) \<times> nat option \<times> lock_store)
     \<Rightarrow> string \<Rightarrow> string \<Rightarrow> jsvalue \<Rightarrow> bool \<Rightarrow> bool \<Rightarrow> string \<Rightarrow> lock_store
     \<Rightarrow> bool promise \<times> lock_store" where
  "Node_update_chain sorted_pending getPathKeys now locate getValue mergeNode createNode finish
     topEventPath p val merge internal tid st =
     (case NodeLock_lock getPathKeys now st (Path topEventPath) tid True
             (''Node.update (get topEventPath '' @ quoted topEventPath @ '')'') False False of
        (Pending, st1) \<Rightarrow> (Pending, st1)
      | (Rejected err, st1) \<Rightarrow> update_catch sorted_pending getPathKeys now err None st1
      | (Resolved lock, st1) \<Rightarrow>
          (case locate topEventPath st1 of
             (Inl err, st2) \<Rightarrow> update_catch sorted_pending getPathKeys now err (Some lock) st2
           | (Inr eventNodeInfo, st2) \<Rightarrow>
               (case (if \<not> ni_exists eventNodeInfo \<or> internal then (Inr JNull, st2)
                      else getValue eventNodeInfo lock st2) of
                  (Inl err, st3) \<Rightarrow> update_catch sorted_pending getPathKeys now err (Some lock) st3
                | (Inr topEventData, st3) \<Rightarrow>
                    (case NodeLock_moveTo sorted_pending getPathKeys now st3 lock p True of
                       (Pending, st4) \<Rightarrow> (Pending, st4)
                     | (Rejected err, st4) \<Rightarrow>
                         update_catch sorted_pending getPathKeys now err (Some lock) st4
                     | (Resolved lock', st4) \<Rightarrow>
                         (case locate p st4 of
                            (Inl err, st5) \<Rightarrow>
                              update_catch sorted_pending getPathKeys now err (Some lock') st5
                          | (Inr nodeInfo, st5) \<Rightarrow>
                              Node_update_write sorted_pending getPathKeys now mergeNode createNode
                                finish nodeInfo val merge lock' st5)))))"

section \<open>Properties of normalize\<close>

lemma totalAddresses_sum: "totalAddresses ranges = sum_list (map r_length ranges)"
proof -
  have "foldl (\<lambda>total nr. total + nr) a ns = a + sum_list ns" for a :: nat and ns
    by (induction ns arbitrary: a) auto
  then show ?thesis by (simp add: totalAddresses_def)
qed

lemma absorb_adjacent_total:
  "absorb_adjacent rng rest = Some rest' \<Longrightarrow>
     sum_list (map r_length rest') = r_length rng + sum_list (map r_length rest)"
  by (induction rest arbitrary: rest') (auto split: if_splits)

lemma range_addresses_append:
  "map (\<lambda>i. (p, s + i)) [0 ..< m + n] =
     map (\<lambda>i. (p, s + i)) [0 ..< m] @ map (\<lambda>i. (p, (s + m) + i)) [0 ..< n]"
  by (induction n) (simp_all add: add.assoc)

lemma absorb_adjacent_addresses:
  "absorb_adjacent rng rest = Some rest' \<Longrightarrow>
     mset (addresses rest') = mset (range_addresses rng) + mset (addresses rest)"
proof (induction rest arbitrary: rest')
  case Nil
  then show ?case by simp
next
  case (Cons otherRange rest)
  show ?case
  proof (cases "r_pageNr otherRange \<noteq> r_pageNr rng")
    case True
    with Cons.prems obtain t where t: "absorb_adjacent rng rest = Some t" "rest' = otherRange # t"
      by auto
    from Cons.IH [OF t(1)] t(2) show ?thesis by (simp add: addresses_def)
  next
    case samePage: False
    show ?thesis
    proof (cases "r_recordNr otherRange = r_recordNr rng + r_length rng")
      case True
      with samePage Cons.prems
      have r: "rest' = otherRange\<lparr> r_length := r_length otherRange + r_length rng,
                                   r_recordNr := r_recordNr rng \<rparr> # rest"
        by (auto split: if_splits)
      have "range_addresses (otherRange\<lparr> r_length := r_length otherRange + r_length rng,
                                          r_recordNr := r_recordNr rng \<rparr>)
              = range_addresses rng @ range_addresses otherRange"
        using samePage True
        range_addresses_append [of "r_pageNr rng" "r_recordNr rng" "r_length rng" "r_length otherRange"]
        by (simp add: range_addresses_def add.commute)
      with r show ?thesis by (simp add: addresses_def)
    next
      case notBefore: False
      show ?thesis
      proof (cases "r_recordNr rng = r_recordNr otherRange + r_length otherRange")
        case True
        with samePage notBefore Cons.prems
        have r: "rest' = otherRange\<lparr> r_length := r_length otherRange + r_length rng \<rparr> # rest"
          by (auto split: if_splits)
        have "range_addresses (otherRange\<lparr> r_length := r_length otherRange + r_length rng \<rparr>)
                = range_addresses otherRange @ range_addresses rng"
          using samePage True
          range_addresses_append [of "r_pageNr rng" "r_recordNr otherRange" "r_length otherRange" "r_length rng"]
          by (simp add: range_addresses_def)
        with r show ?thesis by (simp add: addresses_def)
      next
        case False
        with samePage notBefore Cons.prems
        obtain t where t: "absorb_adjacent rng rest = Some t" "rest' = otherRange # t"
          by auto
        from Cons.IH [OF t(1)] t(2) show ?thesis by (simp add: addresses_def)
      qed
    qed
  qed
qed

lemma normalize_sum: "sum_list (map r_length (normalize ranges)) = sum_list (map r_length ranges)"
proof (induction ranges rule: normalize.induct)
  case 1
  then show ?case by simp
next
  case (2 rng rest)
  show ?case
  proof (cases "absorb_adjacent rng rest")
    case None
    with "2.IH"(1) show ?thesis by simp
  next
    case (Some rest')
    with "2.IH"(2) absorb_adjacent_total [OF Some] show ?thesis by simp
  qed
qed

lemma normalize_addresses: "mset (addresses (normalize ranges)) = mset (addresses ranges)"
proof (induction ranges rule: normalize.induct)
  case 1
  then show ?case by simp
next
  case (2 rng rest)
  show ?case
  proof (cases "absorb_adjacent rng rest")
    case None
    with "2.IH"(1) show ?thesis by (simp add: addresses_def)
  next
    case (Some rest')
    with "2.IH"(2) absorb_adjacent_addresses [OF Some] show ?thesis by (simp add: addresses_def)
  qed
qed

text \<open>
  Claim C10. For every node allocation, \<^verbatim>\<open>normalize()\<close> preserves the total number of
  addresses: \<^verbatim>\<open>totalAddresses\<close> after the call equals \<^verbatim>\<open>totalAddresses\<close> before it, and
  the allocation names the same record addresses as before, each as often as before
  (ranges are only coalesced; no address is gained or lost).
\<close>

theorem C10_normalize_preserves_totalAddresses:
  "totalAddresses (normalize ranges) = totalAddresses ranges
   \<and> mset (addresses (normalize ranges)) = mset (addresses ranges)"
  by (simp add: totalAddresses_sum normalize_sum normalize_addresses)

section \<open>Properties of the node address cache\<close>

lemma NodePath_isAncestorOf_isDescendantOf:
  "isAncestorOf getPathKeys p q = isDescendantOf getPathKeys q p"
  by (auto simp: isAncestorOf_def isDescendantOf_def)

text \<open>
  The filter of \<^verbatim>\<open>invalidate\<close> selects every cached path, whatever path was requested.
\<close>

lemma NodeCache_invalidate_filter_all:
  "filter (NodeCache_invalidate_filter getPathKeys requestedPath) paths = paths"
  by (simp add: NodeCache_invalidate_filter_def)

text \<open>
  With \<open>markAsDeleted\<close> false, each step of the loop looks up the property
  \<^verbatim>\<open>"undefined"\<close>: a cache that has no such property is handed back as it was.
\<close>

lemma NodeCache_invalidate_forEach_unchanged:
  "map_of c ''undefined'' = None \<Longrightarrow> list_all (\<lambda>p. map_of c p \<noteq> None) paths \<Longrightarrow>
     NodeCache_invalidate_forEach False c paths = Inr c"
  by (induction paths)
     (auto simp: NodeCache_remove_def entry_read_as_address_def new_NodeAddress_def
        property_key_def)

lemma NodeCache_invalidate_unchanged:
  assumes "map_of c ''undefined'' = None"
  shows "NodeCache_invalidate getPathKeys c requestedPath False = Inr c"
proof -
  have "list_all (\<lambda>p. map_of c p \<noteq> None) (map fst c)"
    by (auto simp: list_all_iff weak_map_of_SomeI dest!: weak_map_of_SomeI)
  with assms show ?thesis
    by (simp add: NodeCache_invalidate_def NodeCache_invalidate_filter_all
        NodeCache_invalidate_forEach_unchanged)
qed

lemma NodeCache_find_map_of: "NodeCache_find c p = map_option address (map_of c p)"
  by (simp add: NodeCache_find_def entry_instanceof_RemovedNodeAddress_def split: option.splits)

text \<open>
  Claim C3 says that \<^verbatim>\<open>NodeCache.invalidate(p, markAsDeleted)\<close> removes (or
  tombstones) exactly the cached entries whose path is \<open>p\<close> or a descendant of \<open>p\<close>, and
  leaves every other entry unchanged. The code does not: with the addresses of
  \<^verbatim>\<open>posts/1\<close>, of its child \<^verbatim>\<open>posts/1/title\<close> and of \<^verbatim>\<open>users\<close> in the cache,
  \<^verbatim>\<open>invalidate("posts/1", false)\<close> returns the cache as it was, and
  \<^verbatim>\<open>invalidate("posts/1", true)\<close> keeps the three entries as they were and adds an entry
  under the property \<^verbatim>\<open>"undefined"\<close>.
\<close>

theorem C3_invalidate_keeps_the_entries:
  "NodeCache_invalidate getPathKeys_spec
     [(''posts/1'', \<lparr> address = new_NodeAddress (Some ''posts/1'') (Some 3) (Some 4) \<rparr>),
      (''posts/1/title'', \<lparr> address = new_NodeAddress (Some ''posts/1/title'') (Some 3) (Some 9) \<rparr>),
      (''users'', \<lparr> address = new_NodeAddress (Some ''users'') (Some 5) (Some 0) \<rparr>)]
     ''posts/1'' False
   = Inr [(''posts/1'', \<lparr> address = new_NodeAddress (Some ''posts/1'') (Some 3) (Some 4) \<rparr>),
          (''posts/1/title'', \<lparr> address = new_NodeAddress (Some ''posts/1/title'') (Some 3) (Some 9) \<rparr>),
          (''users'', \<lparr> address = new_NodeAddress (Some ''users'') (Some 5) (Some 0) \<rparr>)]
   \<and>
   NodeCache_invalidate getPathKeys_spec
     [(''posts/1'', \<lparr> address = new_NodeAddress (Some ''posts/1'') (Some 3) (Some 4) \<rparr>),
      (''posts/1/title'', \<lparr> address = new_NodeAddress (Some ''posts/1/title'') (Some 3) (Some 9) \<rparr>),
      (''users'', \<lparr> address = new_NodeAddress (Some ''users'') (Some 5) (Some 0) \<rparr>)]
     ''posts/1'' True
   = Inr [(''posts/1'', \<lparr> address = new_NodeAddress (Some ''posts/1'') (Some 3) (Some 4) \<rparr>),
          (''posts/1/title'', \<lparr> address = new_NodeAddress (Some ''posts/1/title'') (Some 3) (Some 9) \<rparr>),
          (''users'', \<lparr> address = new_NodeAddress (Some ''users'') (Some 5) (Some 0) \<rparr>),
          (''undefined'', \<lparr> address = new_NodeAddress None None None \<rparr>)]"
  by (simp add: NodeCache_invalidate_def NodeCache_invalidate_filter_def NodeCache_remove_def
      NodeCache_update_def entry_read_as_address_def new_RemovedNodeAddress_def
      new_NodeAddress_def property_key_def)

text \<open>
  When \<^verbatim>\<open>invalidate\<close> returns, the cache it leaves is the one it returns here.
\<close>

lemma NodeCache_invalidate_forEach_cache_Inr:
  "NodeCache_invalidate_forEach markAsDeleted c paths = Inr c' \<Longrightarrow>
     NodeCache_invalidate_forEach_cache markAsDeleted c paths = c'"
  by (induction paths arbitrary: c) (auto split: option.splits)

lemma NodeCache_invalidate_cache_Inr:
  "NodeCache_invalidate getPathKeys c p markAsDeleted = Inr c' \<Longrightarrow>
     NodeCache_invalidate_cache getPathKeys c p markAsDeleted = c'"
  by (simp add: NodeCache_invalidate_def NodeCache_invalidate_cache_def
      NodeCache_invalidate_forEach_cache_Inr)











section \<open>Properties of the child entry codec\<close>

text \<open>What \<^verbatim>\<open>_valueFitsInline\<close> answers, value by value.\<close>

lemma valueFitsInline_true_iff:
  "valueFitsInline maxInlineValueSize v = Inr True \<longleftrightarrow>
     (case v of
        JNumber x \<Rightarrow> True
      | JBoolean b \<Rightarrow> True
      | JDate ms \<Rightarrow> True
      | JInternalNodeReference t a \<Rightarrow> True
      | JString s \<Rightarrow> length (textEncoder_encode s) < maxInlineValueSize
      | JPathReference p \<Rightarrow> length (textEncoder_encode p) < maxInlineValueSize
      | JArray xs \<Rightarrow> xs = []
      | JObject kvs \<Rightarrow> kvs = []
      | _ \<Rightarrow> False)"
  by (cases v) (simp_all add: js_less_def ArrayBuffer_length_def)

lemma valueFitsInline_ArrayBuffer:
  "valueFitsInline maxInlineValueSize (JArrayBuffer bs) = Inr False"
  by (simp add: js_less_def ArrayBuffer_length_def)

text \<open>
  Claim C6 says that \<^verbatim>\<open>_valueFitsInline(storage, v)\<close> is true of a binary value
  (\<^verbatim>\<open>ArrayBuffer\<close>) whose byte length is strictly less than \<^verbatim>\<open>maxInlineValueSize\<close>. The
  code does not: with \<^verbatim>\<open>maxInlineValueSize\<close> 16, the answer for an \<^verbatim>\<open>ArrayBuffer\<close> of one
  byte, whose byte length 1 is less than 16, is false.
\<close>

theorem C6_small_ArrayBuffer_does_not_fit:
  "valueFitsInline 16 (JArrayBuffer [1]) = Inr False \<and> ArrayBuffer_byteLength [1] < 16"
  by (simp add: js_less_def ArrayBuffer_length_def ArrayBuffer_byteLength_def)

text \<open>
  The circular reference test of \<^verbatim>\<open>getValueFromBinary\<close> compares the paths too. The path
  of a child differs from the path of its parent record unless the parent is the root
  and the key is empty or undefined, so under any other record the error is never raised.
\<close>

lemma childPath_of_differs:
  assumes "path this_address = Some p" and "p \<noteq> []"
  shows "childPath_of this_address isArray child \<noteq> path this_address"
  using assms by (auto simp: childPath_of_def property_key_def)

lemma tiny_value_no_circular_error:
  "tiny_value t v \<noteq> Inl (Error ''Circular reference in record data'')"
  by (simp add: tiny_value_def)

lemma inline_value_no_circular_error:
  "inline_value bytesToNumber t bs \<noteq> Inl (Error ''Circular reference in record data'')"
  by (simp add: inline_value_def)

lemma sum_case_not_error:
  "x \<noteq> Inl E \<Longrightarrow> (case x of Inl e \<Rightarrow> Inl e | Inr v \<Rightarrow> Inr (f v)) \<noteq> Inl E"
  by (cases x) auto

lemma getValueFromBinary_no_circular_error:
  assumes "path this_address = Some p" and "p \<noteq> []"
  shows "getValueFromBinary bytesToNumber this_address isArray child binary i
           \<noteq> Inl (Error ''Circular reference in record data'')"
proof -
  have ne: "\<not> equals (new_NodeAddress (childPath_of this_address isArray c) pg rc) this_address"
    for c pg rc
    using childPath_of_differs [OF assms, of isArray c]
    by (simp add: equals_def new_NodeAddress_def)
  show ?thesis
    unfolding getValueFromBinary_def Let_def
    by (simp add: ne sum_case_not_error tiny_value_no_circular_error
        inline_value_no_circular_error)
qed

text \<open>
  Claim C9 says that a child entry with value location \<^verbatim>\<open>RECORD\<close> whose stored page and
  record numbers are those of the record being read is rejected with a corruption error.
  The code does not: reading the record of \<^verbatim>\<open>users\<close> at page 7, record 3, the entry of
  the key \<^verbatim>\<open>ewout\<close> with type \<^verbatim>\<open>OBJECT\<close>, location \<^verbatim>\<open>RECORD\<close> and the stored address
  page 7, record 3 is delivered as a child with that address.
\<close>

theorem C9_self_reference_is_delivered:
  "getValueFromBinary bytesToNumber (new_NodeAddress (Some ''users'') (Some 7) (Some 3)) False
     \<lparr> ni_path = Some ''users/ewout'', ni_type = None, ni_index = None, ni_key = Some ''ewout'',
       ni_exists = True, ni_address = None, ni_value = None \<rparr>
     [0x10, 0xC0, 0, 0, 0, 7, 0, 3] 0
   = Inr (\<lparr> ni_path = Some ''users/ewout'', ni_type = Some VT_OBJECT, ni_index = None,
            ni_key = Some ''ewout'', ni_exists = True,
            ni_address = Some (new_NodeAddress (Some ''users/ewout'') (Some 7) (Some 3)),
            ni_value = None \<rparr>, 8)"
  by (simp add: getValueFromBinary_def Let_def new_NodeAddress_def equals_def childPath_of_def
      property_key_def getUint32_def getUint16_def VT_OBJECT_def)

text \<open>
  Claim C2 says that every primitive child value that is stored tiny or inline comes
  back equal from \<^verbatim>\<open>_serializeValue\<close>, \<^verbatim>\<open>_getValueBytes\<close> and the decoder of child
  entries, empty values decoding from the tiny form. The code does not, with
  \<^verbatim>\<open>maxInlineValueSize\<close> 16 and the child \<^verbatim>\<open>b\<close> of the record of \<^verbatim>\<open>a\<close>:
  \<^item> the empty path reference is serialized as the two numbers 144 and -1 (no tiny form),
    which are the bytes 144 and 255, and the decoder, taking 255 for the location
    \<^verbatim>\<open>RECORD\<close>, throws a \<^verbatim>\<open>TruncatedDataError\<close>;
  \<^item> for an \<^verbatim>\<open>ArrayBuffer\<close> of one byte, \<^verbatim>\<open>_getValueBytes\<close> throws a \<^verbatim>\<open>TypeError\<close>;
  \<^item> so it does for the empty \<^verbatim>\<open>ArrayBuffer\<close>.
\<close>

theorem C2_reference_and_binary_do_not_round_trip:
  "serialize_then_decode numberToBytes bytesToNumber 16 lockAndWriteNode
     (new_NodeAddress (Some ''a'') (Some 1) (Some 0)) False
     \<lparr> ni_path = Some ''a/b'', ni_type = None, ni_index = None, ni_key = Some ''b'',
       ni_exists = True, ni_address = None, ni_value = None \<rparr>
     ''a/b'' (Key ''b'') (JPathReference [])
   = Inl TruncatedDataError
   \<and>
   serialize_then_decode numberToBytes bytesToNumber 16 lockAndWriteNode
     (new_NodeAddress (Some ''a'') (Some 1) (Some 0)) False
     \<lparr> ni_path = Some ''a/b'', ni_type = None, ni_index = None, ni_key = Some ''b'',
       ni_exists = True, ni_address = None, ni_value = None \<rparr>
     ''a/b'' (Key ''b'') (JArrayBuffer [1])
   = Inl (TypeError ''data.forEach is not a function'')
   \<and>
   serialize_then_decode numberToBytes bytesToNumber 16 lockAndWriteNode
     (new_NodeAddress (Some ''a'') (Some 1) (Some 0)) False
     \<lparr> ni_path = Some ''a/b'', ni_type = None, ni_index = None, ni_key = Some ''b'',
       ni_exists = True, ni_address = None, ni_value = None \<rparr>
     ''a/b'' (Key ''b'') (JArrayBuffer [])
   = Inl (TypeError ''data.forEach is not a function'')"
  by (simp add: serialize_then_decode_def getValueBytes_def tinyValue_of_def
      tiny_if_empty_object_def inline_bytes_def create_def empty_details_def
      textEncoder_encode_def ArrayBuffer_byteLength_def new_Uint8Array_def
      getValueFromBinary_def Let_def VALUE_TYPES)

section \<open>Properties of the record header\<close>

lemma map_zip_index_nonzero:
  "length js = length xs \<Longrightarrow> 0 \<notin> set js \<Longrightarrow>
     map (\<lambda>(r, index). if index = (0::nat) then A r else B r) (zip xs js) = map B xs"
  by (induction xs arbitrary: js) (auto simp: length_Suc_conv)

lemma toChunkTable_Cons:
  "toChunkTable (rng # rest) =
     (if rest = [] \<and> r_length rng = 1
      then [\<lparr> ct_type = 0, ct_pageNr = r_pageNr rng, ct_recordNr = r_recordNr rng,
               ct_length = r_length rng \<rparr>]
      else \<lparr> ct_type = 1, ct_pageNr = r_pageNr rng, ct_recordNr = r_recordNr rng,
               ct_length = r_length rng \<rparr>
           # map (\<lambda>r. \<lparr> ct_type = 2, ct_pageNr = r_pageNr r, ct_recordNr = r_recordNr r,
                           ct_length = r_length r \<rparr>) rest)"
proof -
  have up: "[0 ..< Suc (length rest)] = 0 # [Suc 0 ..< Suc (length rest)]"
    by (rule upt_conv_Cons) simp
  have "map (\<lambda>(r, index). if index = 0 then r\<lparr> ct_type := 1 \<rparr> else r\<lparr> ct_type := 2 \<rparr>)
          (zip (map (\<lambda>r. \<lparr> ct_type = 0, ct_pageNr = r_pageNr r, ct_recordNr = r_recordNr r,
                              ct_length = r_length r \<rparr>) rest)
               [Suc 0 ..< Suc (length rest)])
        = map (\<lambda>r. r\<lparr> ct_type := 2 \<rparr>)
            (map (\<lambda>r. \<lparr> ct_type = 0, ct_pageNr = r_pageNr r, ct_recordNr = r_recordNr r,
                           ct_length = r_length r \<rparr>) rest)"
    by (rule map_zip_index_nonzero) (auto simp: Suc_le_eq)
  then show ?thesis
    by (simp add: toChunkTable_def Let_def up comp_def del: upt_Suc)
qed

lemma write_chunk_table_frame:
  "write_chunk_table cts h off = Inr (h', off') \<Longrightarrow>
     length h' = length h \<and> off \<le> off' \<and> (\<forall>i < off. h' ! i = h ! i)"
proof (induction cts arbitrary: h off)
  case Nil
  then show ?case by simp
next
  case (Cons c cts)
  show ?case
  proof (cases "ct_type c = 0")
    case True
    with Cons.prems obtain h1 where h1: "dv_setUint8 h off 0 = Inr h1"
      and rest: "write_chunk_table cts h1 off = Inr (h', off')"
      by (auto split: sum.splits)
    from h1 have "h1 = h[off := 0]" by (auto simp: dv_setUint8_def split: if_splits)
    with Cons.IH [OF rest] show ?thesis by auto
  next
    case n0: False
    show ?thesis
    proof (cases "ct_type c = 1")
      case True
      with n0 Cons.prems obtain h1 h2 where h1: "dv_setUint8 h off (ct_type c) = Inr h1"
        and h2: "dv_setUint16 h1 (off + 1) (ct_length c) = Inr h2"
        and rest: "write_chunk_table cts h2 (off + 3) = Inr (h', off')"
        by (auto split: sum.splits)
      from h1 h2 have "length h2 = length h \<and> (\<forall>i < off. h2 ! i = h ! i)"
        by (auto simp: dv_setUint8_def dv_setUint16_def split: if_splits)
      with Cons.IH [OF rest] show ?thesis by auto
    next
      case n1: False
      with n0 Cons.prems have t2: "ct_type c = 2" by (auto split: sum.splits if_splits)
      with Cons.prems obtain h1 h2 h3 h4 where h1: "dv_setUint8 h off (ct_type c) = Inr h1"
        and h2: "dv_setUint32 h1 (off + 1) (ct_pageNr c) = Inr h2"
        and h3: "dv_setUint16 h2 (off + 5) (ct_recordNr c) = Inr h3"
        and h4: "dv_setUint16 h3 (off + 7) (ct_length c) = Inr h4"
        and rest: "write_chunk_table cts h4 (off + 9) = Inr (h', off')"
        by (auto split: sum.splits)
      from h1 h2 h3 h4 have "length h4 = length h \<and> (\<forall>i < off. h4 ! i = h ! i)"
        by (auto simp: dv_setUint8_def dv_setUint16_def dv_setUint32_def split: if_splits)
      with Cons.IH [OF rest] show ?thesis by auto
    qed
  qed
qed

lemma getUint16_of_setUint16:
  "unat (of_nat (n div 2 ^ 8) :: byte) * 2 ^ 8 + unat (of_nat n :: byte) = n mod 65536"
proof -
  have "n mod (256 * 256) = 256 * (n div 256 mod 256) + n mod 256"
    by (rule mod_mult2_eq)
  then show ?thesis by (simp add: unat_of_nat)
qed

lemma write_header_type1_payload:
  assumes w: "write_header hb t k (rng # rest) lcs = Inr hdr"
    and multi: "rest \<noteq> [] \<or> r_length rng \<noteq> 1"
  shows "unat (hdr ! 1) = 1 \<and> getUint16 hdr 2 = r_length rng mod 65536"
proof -
  note [simp del] = write_chunk_table.simps
  define cs where
    "cs = map (\<lambda>r. \<lparr> ct_type = 2, ct_pageNr = r_pageNr r, ct_recordNr = r_recordNr r,
                         ct_length = r_length r \<rparr>) rest"
  from w multi obtain header h' off' h3 where
    ct: "write_chunk_table
           (\<lparr> ct_type = 1, ct_pageNr = r_pageNr rng, ct_recordNr = r_recordNr rng,
               ct_length = r_length rng \<rparr> # cs) header 1 = Inr (h', off')"
    and e1: "dv_setUint8 h' off' 0 = Inr h3"
    and e2: "dv_setUint16 h3 (off' + 1) lcs = Inr hdr"
    by (auto simp: write_header_def toChunkTable_Cons Let_def cs_def
          split: sum.splits if_splits)
  from ct obtain h1 h2 where
    s1: "dv_setUint8 header 1 1 = Inr h1"
    and s2: "dv_setUint16 h1 2 (r_length rng) = Inr h2"
    and rest: "write_chunk_table cs h2 4 = Inr (h', off')"
    by (auto simp: write_chunk_table.simps numeral_2_eq_2 split: sum.splits)
  from s1 have h1: "h1 = header[1 := 1]" and l1: "2 \<le> length header"
    by (auto simp: dv_setUint8_def split: if_splits)
  from s2 have h2: "h2 = h1[2 := of_nat (r_length rng div 2 ^ 8), 3 := of_nat (r_length rng)]"
    and l2: "4 \<le> length h1"
    by (auto simp: dv_setUint16_def split: if_splits)
  from write_chunk_table_frame [OF rest]
  have fr: "length h' = length h2" "4 \<le> off'" "\<forall>i<4. h' ! i = h2 ! i"
    by auto
  from e1 have h3: "h3 = h'[off' := 0]"
    by (auto simp: dv_setUint8_def split: if_splits)
  from e2 have hdr: "hdr = h3[off' + 1 := of_nat (lcs div 2 ^ 8), off' + 2 := of_nat lcs]"
    by (auto simp: dv_setUint16_def split: if_splits)
  have same: "hdr ! i = h2 ! i" if "i < 4" for i
    using that fr hdr h3 by simp
  have "hdr ! 1 = 1" "hdr ! 2 = of_nat (r_length rng div 2 ^ 8)" "hdr ! 3 = of_nat (r_length rng)"
    using same [of 1] same [of 2] same [of 3] h2 h1 l1 l2 by simp_all
  then show ?thesis
    using getUint16_of_setUint16 [of "r_length rng"] by (simp add: getUint16_def)
qed

text \<open>
  Claim C7 says that the 2-byte payload of the type-1 entry of the chunk table holds the
  length of the first range minus one, and that \<^verbatim>\<open>readHeader\<close> rebuilds the length from
  it accordingly. The code does not (lemma \<open>write_header_type1_payload\<close>: the payload is
  the length itself). For a body of 30 bytes and records of 16 bytes, \<^verbatim>\<open>_write\<close> needs 3
  records and a header of 7 bytes; with the allocation of the 3 records from page 2,
  record 5, the header it builds is 1, 1, 0, 3, 0, 0, 5: the payload of the type-1 entry
  is 3, the length of the first range, where the claim says 2. \<^verbatim>\<open>readHeader\<close> on these
  bytes takes the payload as it is for the length of the first range, 3.
\<close>

theorem C7_type1_payload_is_the_length:
  "calculateStorageNeeds 30 16 1
     = \<lparr> headerBytes = 7, totalBytes = 37, requiredRecords = 3, lastChunkSize = 5 \<rparr>
   \<and> write_header 7 VT_OBJECT False [\<lparr> r_pageNr = 2, r_recordNr = 5, r_length = 3 \<rparr>] 5
     = Inr [1, 1, 0, 3, 0, 0, 5]
   \<and> getUint16 [1, 1, 0, 3, 0, 0, 5] 2 = 3
   \<and> readHeader
       (\<lambda>p r. if p = 2 \<and> r = 5 then [1, 1, 0, 3, 0, 0, 5, 0, 0, 0, 0, 0, 0, 0, 0, 0]
              else replicate 16 0)
       8 16 2 5
     = Some (Inr \<lparr> ri_hasKeyIndex = False, ri_valueType = 1,
                    ri_allocation = [\<lparr> r_pageNr = 2, r_recordNr = 5, r_length = 3 \<rparr>],
                    ri_headerLength = 7, ri_lastRecordLength = 5, ri_bytesPerRecord = 16,
                    ri_startData = [0, 0, 0, 0, 0, 0, 0, 0, 0] \<rparr>)"
proof -
  have needs: "calculateStorageNeeds 30 16 1
     = \<lparr> headerBytes = 7, totalBytes = 37, requiredRecords = 3, lastChunkSize = 5 \<rparr>"
    by (simp add: calculateStorageNeeds_def Math_ceil_div_def Let_def)
  have written: "write_header 7 VT_OBJECT False [\<lparr> r_pageNr = 2, r_recordNr = 5, r_length = 3 \<rparr>] 5
     = Inr [1, 1, 0, 3, 0, 0, 5]"
    by code_simp
  have payload: "getUint16 [1, 1, 0, 3, 0, 0, 5] 2 = 3"
    by (simp add: getUint16_def)
  have "readHeader
       (\<lambda>p r. if p = 2 \<and> r = 5 then [1, 1, 0, 3, 0, 0, 5, 0, 0, 0, 0, 0, 0, 0, 0, 0]
              else replicate 16 0)
       8 16 2 5
     = Some (Inr \<lparr> ri_hasKeyIndex = False, ri_valueType = 1,
                    ri_allocation = [\<lparr> r_pageNr = 2, r_recordNr = 5, r_length = 3 \<rparr>],
                    ri_headerLength = 7, ri_lastRecordLength = 5, ri_bytesPerRecord = 16,
                    ri_startData = [0, 0, 0, 0, 0, 0, 0, 0, 0] \<rparr>)"
    apply (simp add: readHeader_def Let_def)
    apply (subst readAllocationTable.simps)
    apply (simp add: getUint16_def)
    apply (subst readAllocationTable.simps)
    apply (simp add: getUint16_def FLAG_KEY_TREE_def FLAG_VALUE_TYPE_def)
    done
  with needs written payload show ?thesis by (intro conjI)
qed

section \<open>Properties of the choice between linear layout and key tree\<close>

lemma write_header_key_tree_flag:
  assumes w: "write_header hb t k allocation lcs = Inr hdr"
    and t: "t = VT_OBJECT \<or> t = VT_ARRAY"
  shows "(hdr ! 0 AND FLAG_KEY_TREE = FLAG_KEY_TREE) = k"
proof -
  note [simp del] = write_chunk_table.simps
  define header where
    "header = (let h = (replicate hb (0::byte))[0 := of_nat t]
               in if k then h[0 := (h ! 0) OR FLAG_KEY_TREE] else h)"
  from w obtain h' off' h3 where
    ct: "write_chunk_table (toChunkTable allocation) header 1 = Inr (h', off')"
    and e1: "dv_setUint8 h' off' 0 = Inr h3"
    and e2: "dv_setUint16 h3 (off' + 1) lcs = Inr hdr"
    by (auto simp: write_header_def Let_def header_def split: sum.splits if_splits)
  from write_chunk_table_frame [OF ct]
  have fr: "length h' = length header" "1 \<le> off'" "h' ! 0 = header ! 0"
    by auto
  from e1 have h3: "h3 = h'[off' := 0]" and len: "off' < length h'"
    by (auto simp: dv_setUint8_def split: if_splits)
  from e2 have hdr: "hdr = h3[off' + 1 := of_nat (lcs div 2 ^ 8), off' + 2 := of_nat lcs]"
    by (auto simp: dv_setUint16_def split: if_splits)
  from hdr h3 fr have h0: "hdr ! 0 = header ! 0" by simp
  from len fr have "0 < hb" by (auto simp: header_def Let_def split: if_splits)
  then have "header ! 0 = (if k then of_nat t OR FLAG_KEY_TREE else of_nat t)"
    by (simp add: header_def Let_def)
  with h0 t show ?thesis
    by (auto simp: FLAG_KEY_TREE_def VT_OBJECT_def VT_ARRAY_def)
qed

lemma foldl_keeps_fillFactor:
  "(\<And>b x. tb_fillFactor (f b x) = tb_fillFactor b) \<Longrightarrow>
     tb_fillFactor (foldl f builder xs) = tb_fillFactor builder"
  by (induction xs arbitrary: builder) simp_all

lemma mergeNode_rebuild_fillFactor:
  "tb_fillFactor (mergeNode_rebuild entries_of_tree changes) =
     (if list_all change_numeric changes then 50 else 95)"
  by (simp add: mergeNode_rebuild_def Let_def foldl_keeps_fillFactor builder_remove_def
      builder_add_def toTreeBuilder_def BINARY_TREE_FILL_FACTOR_50_def
      BINARY_TREE_FILL_FACTOR_95_def)

text \<open>
  Claim C5, as amended. When \<^verbatim>\<open>_writeNode\<close> has serialized the children of a node, the
  record is written with \<^verbatim>\<open>FLAG_KEY_TREE\<close> set in its first header byte, and its body as a
  B+tree, exactly when the list of serialized children has more than 100 entries; with
  100 entries or fewer the body is the linear key/value layout. The tree that
  \<^verbatim>\<open>_writeNode\<close> builds has fill factor 50 if every serialized child has a numeric index
  or a key made of digits only, and 95 otherwise. The tree that \<^verbatim>\<open>_mergeNode\<close> rebuilds has
  fill factor 50 if every key among the changes being merged is a number or made of
  digits only, and 95 otherwise, whatever keys the tree already holds.
\<close>

theorem C5_layout_and_fill_factor:
  assumes "writeNode_body buildTree getOrAdd isArray serialized = Inr (type, data, keyTree)"
    and "write_header hb type keyTree allocation lcs = Inr hdr"
  shows "(hdr ! 0 AND FLAG_KEY_TREE = FLAG_KEY_TREE) = (length serialized > 100)
    \<and> (length serialized > 100 \<longrightarrow>
         (\<exists>entries. tree_entries serialized = Inr entries
            \<and> data = new_Uint8Array
                 (buildTree (if list_all kvp_numeric serialized then 50 else 95) entries)))
    \<and> (length serialized \<le> 100 \<longrightarrow> linear_data getOrAdd isArray serialized [] = Inr data)
    \<and> tb_fillFactor (mergeNode_rebuild entries_of_tree changes)
        = (if list_all change_numeric changes then 50 else 95)"
proof -
  from assms(1) have ty: "type = VT_OBJECT \<or> type = VT_ARRAY"
    and kt: "keyTree = (length serialized > 100)"
    by (auto simp: writeNode_body_def Let_def minKeysForTreeCreation_def
          split: if_splits sum.splits)
  from write_header_key_tree_flag [OF assms(2) ty] kt
  have flag: "(hdr ! 0 AND FLAG_KEY_TREE = FLAG_KEY_TREE) = (length serialized > 100)"
    by simp
  from assms(1) have tree: "length serialized > 100 \<longrightarrow>
         (\<exists>entries. tree_entries serialized = Inr entries
            \<and> data = new_Uint8Array
                 (buildTree (if list_all kvp_numeric serialized then 50 else 95) entries))"
    by (auto simp: writeNode_body_def Let_def minKeysForTreeCreation_def
          BINARY_TREE_FILL_FACTOR_50_def BINARY_TREE_FILL_FACTOR_95_def
          split: if_splits sum.splits)
  from assms(1) have lin: "length serialized \<le> 100 \<longrightarrow>
         linear_data getOrAdd isArray serialized [] = Inr data"
    by (auto simp: writeNode_body_def Let_def minKeysForTreeCreation_def
          split: if_splits sum.splits)
  from flag tree lin mergeNode_rebuild_fillFactor show ?thesis by blast
qed

text \<open>
  An array of 101 booleans is written as a tree with fill factor 50 and the flag set; a
  merge that inserts the key \<^verbatim>\<open>8\<close> rebuilds the tree with fill factor 50.
\<close>

theorem C5_layout_and_fill_factor_witness:
  "writeNode_body (\<lambda>fillFactor entries. int fillFactor # concat (map snd entries)) (\<lambda>key. - 1) True
     (map (\<lambda>i. \<lparr> kv_key = None, kv_index = Some i, kv_type = VT_BOOLEAN, kv_bool = Some True,
                  kv_ref = Some (JBoolean True), kv_binary = None, kv_record = None,
                  kv_bytes = None \<rparr>) [0 ..< 101])
     = Inr (VT_ARRAY, new_Uint8Array (50 # concat (replicate 101 [65, 64])), True)
   \<and> write_header 7 VT_ARRAY True [\<lparr> r_pageNr = 2, r_recordNr = 5, r_length = 3 \<rparr>] 5
     = Inr [0x42, 1, 0, 3, 0, 0, 5]
   \<and> ([0x42, 1, 0, 3, 0, 0, 5] ! 0 AND FLAG_KEY_TREE = FLAG_KEY_TREE)
   \<and> tb_fillFactor
       (mergeNode_rebuild [(Key ''7'', [65, 64])]
          [\<lparr> ch_keyOrIndex = Key ''8'', ch_changeType = INSERT, ch_oldValue = None,
              ch_newValue = Some [65, 64] \<rparr>]) = 50"
proof -
  have body: "writeNode_body (\<lambda>fillFactor entries. int fillFactor # concat (map snd entries))
       (\<lambda>key. - 1) True
       (map (\<lambda>i. \<lparr> kv_key = None, kv_index = Some i, kv_type = VT_BOOLEAN, kv_bool = Some True,
                    kv_ref = Some (JBoolean True), kv_binary = None, kv_record = None,
                    kv_bytes = None \<rparr>) [0 ..< 101])
     = Inr (VT_ARRAY, new_Uint8Array (50 # concat (replicate 101 [65, 64])), True)"
    by code_simp
  have header: "write_header 7 VT_ARRAY True [\<lparr> r_pageNr = 2, r_recordNr = 5, r_length = 3 \<rparr>] 5
     = Inr [0x42, 1, 0, 3, 0, 0, 5]"
    by code_simp
  from C5_layout_and_fill_factor [OF body header, of "[(Key ''7'', [65, 64])]"
      "[\<lparr> ch_keyOrIndex = Key ''8'', ch_changeType = INSERT, ch_oldValue = None,
          ch_newValue = Some [65, 64] \<rparr>]"]
    body header
  show ?thesis by (simp add: change_numeric_def is_digits_def)
qed

text \<open>
  Claim C5 as it stands says that a tree rebuilt on merge has fill factor 50 if every
  key is numeric-looking and 95 otherwise. It fails: a tree that holds the key \<^verbatim>\<open>name\<close>,
  rebuilt by a merge that inserts the key \<^verbatim>\<open>5\<close>, gets fill factor 50 although not every
  key of the rebuilt tree is numeric-looking.
\<close>

theorem C5_merge_rebuild_counterexample:
  "tb_fillFactor
     (mergeNode_rebuild [(Key ''name'', [80, 129, 104, 105])]
        [\<lparr> ch_keyOrIndex = Key ''5'', ch_changeType = INSERT, ch_oldValue = None,
            ch_newValue = Some [65, 64] \<rparr>]) = 50
   \<and> \<not> list_all key_numeric
         (map fst (tb_entries
            (mergeNode_rebuild [(Key ''name'', [80, 129, 104, 105])]
               [\<lparr> ch_keyOrIndex = Key ''5'', ch_changeType = INSERT, ch_oldValue = None,
                   ch_newValue = Some [65, 64] \<rparr>])))"
  by (simp add: mergeNode_rebuild_def Let_def builder_remove_def builder_add_def
      toTreeBuilder_def BINARY_TREE_FILL_FACTOR_50_def BINARY_TREE_FILL_FACTOR_95_def
      change_numeric_def key_numeric_def is_digits_def deletes_def updates_def inserts_def)

section \<open>Properties of the node locks\<close>

lemma find_filter: "List.find Q (filter P xs) = List.find (\<lambda>x. P x \<and> Q x) xs"
  by (induction xs) auto

lemma allowLock_after_push:
  assumes "references_valid st"
  shows "allowLock getPathKeys
           (st\<lparr> heap := heap st @ [new], locks := locks st @ [length (heap st)] \<rparr>)
           p (lk_tid new) forWriting
         = (let conflict = List.find (\<lambda>l. conflicts_with_request getPathKeys (heap st ! l) p (lk_tid new) forWriting)
                             (locks st)
            in (conflict = None, conflict))"
proof -
  have old: "\<And>l. l \<in> set (locks st) \<Longrightarrow> (heap st @ [new]) ! l = heap st ! l"
    using assms by (auto simp: references_valid_def list_all_iff nth_append)
  have key: "List.find (\<lambda>l. (lk_tid ((heap st @ [new]) ! l) \<noteq> lk_tid new
                        \<and> lk_state ((heap st @ [new]) ! l) = LOCKED)
                       \<and> clashes getPathKeys (heap st @ [new]) p forWriting l)
          (locks st)
        = List.find (\<lambda>l. conflicts_with_request getPathKeys (heap st ! l) p (lk_tid new) forWriting)
          (locks st)"
    by (rule find_cong)
       (auto simp: old clashes_def conflicts_with_request_def
          NodePath_isAncestorOf_isDescendantOf)
  have last: "List.find R (xs @ [y]) = List.find R xs" if "\<not> R y" for R :: "nat \<Rightarrow> bool" and xs y
    using that by (induction xs) auto
  have "List.find (\<lambda>l. (lk_tid ((heap st @ [new]) ! l) \<noteq> lk_tid new
                        \<and> lk_state ((heap st @ [new]) ! l) = LOCKED)
                       \<and> clashes getPathKeys (heap st @ [new]) p forWriting l)
          (locks st @ [length (heap st)])
        = List.find (\<lambda>l. conflicts_with_request getPathKeys (heap st ! l) p (lk_tid new) forWriting)
          (locks st)"
    unfolding key [symmetric] by (rule last) simp
  then show ?thesis
    unfolding allowLock_def find_filter Let_def by simp
qed

lemma find_None_list_ex: "(List.find P xs = None) = (\<not> list_ex P xs)"
  by (auto simp: find_None_iff list_ex_iff)

text \<open>
  A request of a transaction that holds an expired lock is turned down at once: the
  promise is rejected and no lock object is made.
\<close>

lemma NodeLock_lock_expired:
  "tid_has_expired st tid \<Longrightarrow>
     NodeLock_lock getPathKeys now st (Path p) tid forWriting comment withPriority noTimeout
       = (Rejected (Thrown (''lock on tid '' @ tid @ '' has expired, not allowed to continue'')), st)"
  by (simp add: NodeLock_lock_def tid_has_expired_def)

text \<open>
  Claim C1, as amended. Take any state of the lock list whose references are valid, any
  path, transaction id and mode, and suppose that no lock of the requesting transaction
  in \<^verbatim>\<open>_locks\<close> has state \<^verbatim>\<open>EXPIRED\<close>. Then \<^verbatim>\<open>NodeLock.lock\<close> grants the request at once
  (the promise is resolved with the new lock) if and only if \<^verbatim>\<open>_locks\<close> holds no lock
  whose transaction id differs from the requesting one, whose state is \<^verbatim>\<open>LOCKED\<close>,
  whose path equals or is an ancestor of the requested path, and where the existing or
  the requested lock is for writing. In both cases the new lock is appended to \<^verbatim>\<open>_locks\<close>.
  When the request is not granted the promise stays pending, and the new lock is
  \<^verbatim>\<open>PENDING\<close> with \<^verbatim>\<open>waitingFor\<close> the first such lock of \<^verbatim>\<open>_locks\<close>; when it is granted the
  new lock is \<^verbatim>\<open>LOCKED\<close> and waits for nothing.
\<close>

theorem C1_lock_grant_policy:
  assumes valid: "references_valid st" and alive: "\<not> tid_has_expired st tid"
  shows
    "(fst (NodeLock_lock getPathKeys now st (Path p) tid forWriting comment withPriority noTimeout)
        = Resolved (length (heap st)))
       = (\<not> list_ex (\<lambda>l. conflicts_with_request getPathKeys (heap st ! l) p tid forWriting) (locks st))
     \<and> locks (snd (NodeLock_lock getPathKeys now st (Path p) tid forWriting comment withPriority noTimeout))
       = locks st @ [length (heap st)]
     \<and> (if list_ex (\<lambda>l. conflicts_with_request getPathKeys (heap st ! l) p tid forWriting) (locks st)
        then fst (NodeLock_lock getPathKeys now st (Path p) tid forWriting comment withPriority noTimeout)
               = Pending
             \<and> lk_state (heap (snd (NodeLock_lock getPathKeys now st (Path p) tid forWriting comment
                                     withPriority noTimeout)) ! length (heap st)) = PENDING
             \<and> lk_waitingFor (heap (snd (NodeLock_lock getPathKeys now st (Path p) tid forWriting comment
                                     withPriority noTimeout)) ! length (heap st))
               = List.find (\<lambda>l. conflicts_with_request getPathKeys (heap st ! l) p tid forWriting)
                   (locks st)
        else lk_state (heap (snd (NodeLock_lock getPathKeys now st (Path p) tid forWriting comment
                                     withPriority noTimeout)) ! length (heap st)) = LOCKED
             \<and> lk_waitingFor (heap (snd (NodeLock_lock getPathKeys now st (Path p) tid forWriting comment
                                     withPriority noTimeout)) ! length (heap st)) = None)"
proof -
  define new where
    "new = \<lparr> lk_tid = tid, lk_path = p, lk_forWriting = forWriting, lk_priority = withPriority,
             lk_state = PENDING, lk_requested = now, lk_granted = None, lk_expires = None,
             lk_comment = comment, lk_waitingFor = None \<rparr>"
  define conflict where
    "conflict = List.find (\<lambda>l. conflicts_with_request getPathKeys (heap st ! l) p tid forWriting)
                  (locks st)"
  have tid: "lk_tid new = tid" by (simp add: new_def)
  have check: "allowLock getPathKeys
                 (st\<lparr> heap := heap st @ [new], locks := locks st @ [length (heap st)] \<rparr>)
                 p tid forWriting = (conflict = None, conflict)"
    using allowLock_after_push [OF valid, of getPathKeys new p forWriting]
    by (simp add: tid conflict_def Let_def)
  have none: "(conflict = None)
     = (\<not> list_ex (\<lambda>l. conflicts_with_request getPathKeys (heap st ! l) p tid forWriting) (locks st))"
    by (simp add: conflict_def find_None_list_ex)
  have nth: "(heap st @ [x]) ! length (heap st) = x" for x :: NodeLock
    by simp
  have flds: "lk_state new = PENDING" "lk_granted new = None"
    by (simp_all add: new_def)
  show ?thesis
    using alive check none
    by (auto simp: NodeLock_lock_def tid_has_expired_def Let_def new_def [symmetric]
          conflict_def [symmetric] grant_def nth flds split: option.splits)
qed

text \<open>
  Transaction \<^verbatim>\<open>t0\<close> holds a write lock on \<^verbatim>\<open>users\<close>. A read request of \<^verbatim>\<open>t1\<close> on
  \<^verbatim>\<open>users/ewout\<close> is queued behind it; a read request of \<^verbatim>\<open>t1\<close> on \<^verbatim>\<open>posts\<close> is granted.
\<close>

theorem C1_lock_grant_policy_witness:
  "references_valid
     \<lparr> heap = [\<lparr> lk_tid = ''t0'', lk_path = ''users'', lk_forWriting = True, lk_priority = False,
                  lk_state = LOCKED, lk_requested = 10, lk_granted = Some 10,
                  lk_expires = Some 900010, lk_comment = [], lk_waitingFor = None \<rparr>],
       locks = [0] \<rparr>
   \<and> \<not> tid_has_expired
     \<lparr> heap = [\<lparr> lk_tid = ''t0'', lk_path = ''users'', lk_forWriting = True, lk_priority = False,
                  lk_state = LOCKED, lk_requested = 10, lk_granted = Some 10,
                  lk_expires = Some 900010, lk_comment = [], lk_waitingFor = None \<rparr>],
       locks = [0] \<rparr> ''t1''
   \<and> NodeLock_lock getPathKeys_spec 20
       \<lparr> heap = [\<lparr> lk_tid = ''t0'', lk_path = ''users'', lk_forWriting = True, lk_priority = False,
                    lk_state = LOCKED, lk_requested = 10, lk_granted = Some 10,
                    lk_expires = Some 900010, lk_comment = [], lk_waitingFor = None \<rparr>],
         locks = [0] \<rparr>
       (Path ''users/ewout'') ''t1'' False [] False False
     = (Pending,
        \<lparr> heap = [\<lparr> lk_tid = ''t0'', lk_path = ''users'', lk_forWriting = True, lk_priority = False,
                     lk_state = LOCKED, lk_requested = 10, lk_granted = Some 10,
                     lk_expires = Some 900010, lk_comment = [], lk_waitingFor = None \<rparr>,
                  \<lparr> lk_tid = ''t1'', lk_path = ''users/ewout'', lk_forWriting = False,
                     lk_priority = False, lk_state = PENDING, lk_requested = 20,
                     lk_granted = None, lk_expires = None, lk_comment = [],
                     lk_waitingFor = Some 0 \<rparr>],
          locks = [0, 1] \<rparr>)
   \<and> fst (NodeLock_lock getPathKeys_spec 20
       \<lparr> heap = [\<lparr> lk_tid = ''t0'', lk_path = ''users'', lk_forWriting = True, lk_priority = False,
                    lk_state = LOCKED, lk_requested = 10, lk_granted = Some 10,
                    lk_expires = Some 900010, lk_comment = [], lk_waitingFor = None \<rparr>],
         locks = [0] \<rparr>
       (Path ''posts'') ''t1'' False [] False False) = Resolved 1"
proof -
  define S where
    "S = \<lparr> heap = [\<lparr> lk_tid = ''t0'', lk_path = ''users'', lk_forWriting = True, lk_priority = False,
                  lk_state = LOCKED, lk_requested = 10, lk_granted = Some 10,
                  lk_expires = Some 900010, lk_comment = [], lk_waitingFor = None \<rparr>],
       locks = [0] \<rparr>"
  have valid: "references_valid S" by (simp add: S_def references_valid_def)
  have alive: "\<not> tid_has_expired S ''t1''" by (simp add: S_def tid_has_expired_def)
  have conflict: "list_ex (\<lambda>l. conflicts_with_request getPathKeys_spec (heap S ! l) ''users/ewout'' ''t1'' False)
                    (locks S)"
    by (simp add: S_def conflicts_with_request_def isAncestorOf_def getPathKeys_spec_def
        every_key_matches_def Let_def)
  have free: "\<not> list_ex (\<lambda>l. conflicts_with_request getPathKeys_spec (heap S ! l) ''posts'' ''t1'' False)
                    (locks S)"
    by (simp add: S_def conflicts_with_request_def isAncestorOf_def getPathKeys_spec_def
        every_key_matches_def Let_def)
  have queued: "NodeLock_lock getPathKeys_spec 20 S (Path ''users/ewout'') ''t1'' False [] False False
     = (Pending,
        \<lparr> heap = [\<lparr> lk_tid = ''t0'', lk_path = ''users'', lk_forWriting = True, lk_priority = False,
                     lk_state = LOCKED, lk_requested = 10, lk_granted = Some 10,
                     lk_expires = Some 900010, lk_comment = [], lk_waitingFor = None \<rparr>,
                  \<lparr> lk_tid = ''t1'', lk_path = ''users/ewout'', lk_forWriting = False,
                     lk_priority = False, lk_state = PENDING, lk_requested = 20,
                     lk_granted = None, lk_expires = None, lk_comment = [],
                     lk_waitingFor = Some 0 \<rparr>],
          locks = [0, 1] \<rparr>)"
    by (simp add: S_def NodeLock_lock_def allowLock_def clashes_def isDescendantOf_def
        getPathKeys_spec_def every_key_matches_def Let_def)
  from C1_lock_grant_policy [OF valid alive, of getPathKeys_spec 20 "''posts''" False "[]" False False]
    free
  have "fst (NodeLock_lock getPathKeys_spec 20 S (Path ''posts'') ''t1'' False [] False False)
          = Resolved 1"
    by (simp add: S_def)
  with valid alive queued show ?thesis unfolding S_def by simp
qed

text \<open>
  Claim C1 as it stands says that a request is granted if and only if no conflicting
  lock exists, and is left \<^verbatim>\<open>PENDING\<close> otherwise. It fails when the requesting
  transaction has an expired lock: \<^verbatim>\<open>t1\<close> has an expired lock on \<^verbatim>\<open>a\<close> and asks for a
  write lock on \<^verbatim>\<open>b\<close>. No lock conflicts with the request, yet it is neither granted nor
  queued: the promise is rejected and the lock list stays as it was.
\<close>

theorem C1_expired_tid_counterexample:
  "\<not> list_ex
       (\<lambda>l. conflicts_with_request getPathKeys_spec
              ([\<lparr> lk_tid = ''t1'', lk_path = ''a'', lk_forWriting = True, lk_priority = False,
                   lk_state = EXPIRED, lk_requested = 10, lk_granted = Some 10,
                   lk_expires = Some 900010, lk_comment = [], lk_waitingFor = None \<rparr>] ! l)
              ''b'' ''t1'' True)
       [0]
   \<and> NodeLock_lock getPathKeys_spec 1000000
       \<lparr> heap = [\<lparr> lk_tid = ''t1'', lk_path = ''a'', lk_forWriting = True, lk_priority = False,
                    lk_state = EXPIRED, lk_requested = 10, lk_granted = Some 10,
                    lk_expires = Some 900010, lk_comment = [], lk_waitingFor = None \<rparr>],
         locks = [0] \<rparr>
       (Path ''b'') ''t1'' True [] False False
     = (Rejected (Thrown ''lock on tid t1 has expired, not allowed to continue''),
        \<lparr> heap = [\<lparr> lk_tid = ''t1'', lk_path = ''a'', lk_forWriting = True, lk_priority = False,
                     lk_state = EXPIRED, lk_requested = 10, lk_granted = Some 10,
                     lk_expires = Some 900010, lk_comment = [], lk_waitingFor = None \<rparr>],
          locks = [0] \<rparr>)"
  by (simp add: NodeLock_lock_def conflicts_with_request_def)

section \<open>Properties of the failure handling of \<^verbatim>\<open>Node.update\<close>\<close>

lemma grant_frame:
  "locks (grant now noTimeout st r) = locks st
   \<and> length (heap (grant now noTimeout st r)) = length (heap st)
   \<and> (l \<noteq> r \<longrightarrow> heap (grant now noTimeout st r) ! l = heap st ! l)"
  by (simp add: grant_def Let_def split: option.splits)

lemma NodeLock_lock_Retry_frame:
  "locks (snd (NodeLock_lock getPathKeys now st (Retry r) tid fw c wp nt)) = locks st
   \<and> length (heap (snd (NodeLock_lock getPathKeys now st (Retry r) tid fw c wp nt))) = length (heap st)
   \<and> (l \<noteq> r \<longrightarrow> heap (snd (NodeLock_lock getPathKeys now st (Retry r) tid fw c wp nt)) ! l = heap st ! l)"
  by (simp add: NodeLock_lock_def Let_def grant_frame)

lemma process_pending_frame:
  "locks (process_pending getPathKeys now st pending) = locks st
   \<and> length (heap (process_pending getPathKeys now st pending)) = length (heap st)
   \<and> (l \<notin> set pending \<longrightarrow> heap (process_pending getPathKeys now st pending) ! l = heap st ! l)"
proof (induction pending arbitrary: st)
  case Nil
  then show ?case by simp
next
  case (Cons a pending)
  show ?case
    by (simp add: Let_def Cons.IH NodeLock_lock_Retry_frame)
qed

lemma NodeLock_unlock_releases:
  assumes valid: "references_valid st" and held: "lock \<in> set (locks st)"
    and sort: "\<And>h xs. set (sorted_pending h xs) \<subseteq> set xs"
  shows "fst (NodeLock_unlock sorted_pending getPathKeys now st lock comment True) = Resolved lock
     \<and> lock \<notin> set (locks (snd (NodeLock_unlock sorted_pending getPathKeys now st lock comment True)))
     \<and> lk_state (heap (snd (NodeLock_unlock sorted_pending getPathKeys now st lock comment True)) ! lock) = DONE"
proof -
  define st1 where
    "st1 = st\<lparr> heap := (heap st)[lock := (heap st ! lock)\<lparr> lk_state := DONE \<rparr>],
                locks := remove1 lock (locks st) \<rparr>"
  from valid held have inb: "lock < length (heap st)" and dist: "distinct (locks st)"
    by (auto simp: references_valid_def list_all_iff)
  from dist have gone: "lock \<notin> set (locks st1)" by (simp add: st1_def)
  have "set (pending_locks st1) \<subseteq> set (locks st1)" by (auto simp: pending_locks_def)
  with sort [of "heap st1" "pending_locks st1"] gone
  have notp: "lock \<notin> set (sorted_pending (heap st1) (pending_locks st1))" by blast
  have isdone: "lk_state (heap st1 ! lock) = DONE" using inb by (simp add: st1_def)
  from process_pending_frame [of getPathKeys now st1 "sorted_pending (heap st1) (pending_locks st1)" lock]
    notp gone isdone
  have "lock \<notin> set (locks (processLockQueue sorted_pending getPathKeys now st1))
     \<and> lk_state (heap (processLockQueue sorted_pending getPathKeys now st1) ! lock) = DONE"
    by (simp add: processLockQueue_def)
  with held show ?thesis
    by (simp add: NodeLock_unlock_def Let_def st1_def [symmetric])
qed

text \<open>
  The handler at the end of \<^verbatim>\<open>Node.update\<close> turns every failure into the value
  \<^verbatim>\<open>false\<close>: the promise of \<^verbatim>\<open>Node.update\<close> is never rejected.
\<close>

lemma update_catch_resolves:
  "fst (update_catch sorted_pending getPathKeys now err lock_var st) = Resolved False"
  by (simp add: update_catch_def)

lemma Node_update_write_never_rejects:
  "fst (Node_update_write sorted_pending getPathKeys now mergeNode createNode finish
          nodeInfo val merge lock st) \<noteq> Rejected e"
  by (simp add: Node_update_write_def update_catch_resolves split: prod.split sum.split)

lemma Node_update_chain_never_rejects:
  "fst (Node_update_chain sorted_pending getPathKeys now locate getValue mergeNode createNode
          finish topEventPath p val merge internal tid st) \<noteq> Rejected e"
  by (simp add: Node_update_chain_def update_catch_resolves Node_update_write_never_rejects
      split: prod.split sum.split promise.split)

text \<open>
  Claim C4, as amended. When the merge or overwrite step of \<^verbatim>\<open>Node.update\<close> fails (the
  promise of \<^verbatim>\<open>_mergeNode\<close> or \<^verbatim>\<open>_createNode\<close> is rejected) while the write lock is held, the
  lock is released: it leaves \<^verbatim>\<open>_locks\<close> and its state becomes \<^verbatim>\<open>DONE\<close>. The error is
  logged and goes no further: the promise returned by \<^verbatim>\<open>Node.update\<close> is resolved with
  \<^verbatim>\<open>false\<close>.
\<close>

theorem C4_write_failure_is_swallowed:
  assumes stage: "(if ni_exists nodeInfo \<and> ni_address nodeInfo \<noteq> None \<and> merge
                   then mergeNode nodeInfo val lock st
                   else createNode nodeInfo val lock st) = (Inl err, st1)"
    and valid: "references_valid st1" and held: "lock \<in> set (locks st1)"
    and sort: "\<And>h xs. set (sorted_pending h xs) \<subseteq> set xs"
  shows "fst (Node_update_write sorted_pending getPathKeys now mergeNode createNode finish
                nodeInfo val merge lock st) = Resolved False
     \<and> lock \<notin> set (locks (snd (Node_update_write sorted_pending getPathKeys now mergeNode
                                  createNode finish nodeInfo val merge lock st)))
     \<and> lk_state (heap (snd (Node_update_write sorted_pending getPathKeys now mergeNode
                              createNode finish nodeInfo val merge lock st)) ! lock) = DONE"
proof -
  have "Node_update_write sorted_pending getPathKeys now mergeNode createNode finish
          nodeInfo val merge lock st
        = (Resolved False, snd (NodeLock_unlock sorted_pending getPathKeys now st1 lock ''Node.update: error'' True))"
    unfolding Node_update_write_def stage by (simp add: update_catch_def)
  with NodeLock_unlock_releases [OF valid held sort, where getPathKeys = getPathKeys and now = now
      and comment = "''Node.update: error''"]
  show ?thesis by simp
qed

text \<open>
  Transaction \<^verbatim>\<open>t1\<close> holds the write lock on \<^verbatim>\<open>a/b\<close>, the node exists and the merge
  fails with \<^verbatim>\<open>write failed\<close>: the update resolves with \<^verbatim>\<open>false\<close> and the lock is gone.
\<close>

theorem C4_write_failure_is_swallowed_witness:
  "(if ni_exists
         \<lparr> ni_path = Some ''a/b'', ni_type = None, ni_index = None, ni_key = Some ''b'',
           ni_exists = True, ni_address = Some (new_NodeAddress (Some ''a/b'') (Some 1) (Some 2)),
           ni_value = None \<rparr>
       \<and> ni_address
         \<lparr> ni_path = Some ''a/b'', ni_type = None, ni_index = None, ni_key = Some ''b'',
           ni_exists = True, ni_address = Some (new_NodeAddress (Some ''a/b'') (Some 1) (Some 2)),
           ni_value = None \<rparr> \<noteq> None
       \<and> True
    then (Inl (Error ''write failed'') :: error + unit,
          \<lparr> heap = [\<lparr> lk_tid = ''t1'', lk_path = ''a/b'', lk_forWriting = True, lk_priority = False,
                       lk_state = LOCKED, lk_requested = 10, lk_granted = Some 10,
                       lk_expires = Some 900010, lk_comment = [], lk_waitingFor = None \<rparr>],
            locks = [0] \<rparr>)
    else (Inl (Error ''write failed''),
          \<lparr> heap = [\<lparr> lk_tid = ''t1'', lk_path = ''a/b'', lk_forWriting = True, lk_priority = False,
                       lk_state = LOCKED, lk_requested = 10, lk_granted = Some 10,
                       lk_expires = Some 900010, lk_comment = [], lk_waitingFor = None \<rparr>],
            locks = [0] \<rparr>))
     = (Inl (Error ''write failed''),
        \<lparr> heap = [\<lparr> lk_tid = ''t1'', lk_path = ''a/b'', lk_forWriting = True, lk_priority = False,
                     lk_state = LOCKED, lk_requested = 10, lk_granted = Some 10,
                     lk_expires = Some 900010, lk_comment = [], lk_waitingFor = None \<rparr>],
          locks = [0] \<rparr>)
   \<and> references_valid
       \<lparr> heap = [\<lparr> lk_tid = ''t1'', lk_path = ''a/b'', lk_forWriting = True, lk_priority = False,
                    lk_state = LOCKED, lk_requested = 10, lk_granted = Some 10,
                    lk_expires = Some 900010, lk_comment = [], lk_waitingFor = None \<rparr>],
         locks = [0] \<rparr>
   \<and> (0::nat) \<in> set [0]
   \<and> Node_update_write (\<lambda>h xs. xs) getPathKeys_spec 20
       (\<lambda>nodeInfo val lock st. (Inl (Error ''write failed'') :: error + unit, st))
       (\<lambda>nodeInfo val lock st. (Inl (Error ''write failed''), st))
       (\<lambda>result lock st. (Inr True, None, st))
       \<lparr> ni_path = Some ''a/b'', ni_type = None, ni_index = None, ni_key = Some ''b'',
         ni_exists = True, ni_address = Some (new_NodeAddress (Some ''a/b'') (Some 1) (Some 2)),
         ni_value = None \<rparr>
       (JObject [(''x'', JNumber 1)]) True 0
       \<lparr> heap = [\<lparr> lk_tid = ''t1'', lk_path = ''a/b'', lk_forWriting = True, lk_priority = False,
                    lk_state = LOCKED, lk_requested = 10, lk_granted = Some 10,
                    lk_expires = Some 900010, lk_comment = [], lk_waitingFor = None \<rparr>],
         locks = [0] \<rparr>
     = (Resolved False,
        \<lparr> heap = [\<lparr> lk_tid = ''t1'', lk_path = ''a/b'', lk_forWriting = True, lk_priority = False,
                     lk_state = DONE, lk_requested = 10, lk_granted = Some 10,
                     lk_expires = Some 900010, lk_comment = [], lk_waitingFor = None \<rparr>],
          locks = [] \<rparr>)"
proof -
  define S where
    "S = \<lparr> heap = [\<lparr> lk_tid = ''t1'', lk_path = ''a/b'', lk_forWriting = True, lk_priority = False,
                    lk_state = LOCKED, lk_requested = 10, lk_granted = Some 10,
                    lk_expires = Some 900010, lk_comment = [], lk_waitingFor = None \<rparr>],
         locks = [0] \<rparr>"
  define nodeInfo where
    "nodeInfo = \<lparr> ni_path = Some ''a/b'', ni_type = None, ni_index = None, ni_key = Some ''b'',
         ni_exists = True, ni_address = Some (new_NodeAddress (Some ''a/b'') (Some 1) (Some 2)),
         ni_value = None \<rparr>"
  have stage: "(if ni_exists nodeInfo \<and> ni_address nodeInfo \<noteq> None \<and> True
                then (\<lambda>nodeInfo val lock st. (Inl (Error ''write failed'') :: error + unit, st))
                       nodeInfo (JObject [(''x'', JNumber 1)]) 0 S
                else (\<lambda>nodeInfo val lock st. (Inl (Error ''write failed''), st))
                       nodeInfo (JObject [(''x'', JNumber 1)]) 0 S)
               = (Inl (Error ''write failed''), S)"
    by simp
  have valid: "references_valid S" by (simp add: S_def references_valid_def)
  have held: "0 \<in> set (locks S)" by (simp add: S_def)
  have sort: "\<And>h xs. set ((\<lambda>(h::NodeLock list) (xs::nat list). xs) h xs) \<subseteq> set xs" by simp
  have run: "Node_update_write (\<lambda>h xs. xs) getPathKeys_spec 20
       (\<lambda>nodeInfo val lock st. (Inl (Error ''write failed'') :: error + unit, st))
       (\<lambda>nodeInfo val lock st. (Inl (Error ''write failed''), st))
       (\<lambda>result lock st. (Inr True, None, st))
       nodeInfo (JObject [(''x'', JNumber 1)]) True 0 S
     = (Resolved False,
        \<lparr> heap = [\<lparr> lk_tid = ''t1'', lk_path = ''a/b'', lk_forWriting = True, lk_priority = False,
                     lk_state = DONE, lk_requested = 10, lk_granted = Some 10,
                     lk_expires = Some 900010, lk_comment = [], lk_waitingFor = None \<rparr>],
          locks = [] \<rparr>)"
    by (simp add: Node_update_write_def update_catch_def NodeLock_unlock_def
        processLockQueue_def pending_locks_def S_def nodeInfo_def Let_def)
  from C4_write_failure_is_swallowed
      [where sorted_pending = "\<lambda>h xs. xs" and getPathKeys = getPathKeys_spec and now = 20
         and mergeNode = "\<lambda>nodeInfo val lock st. (Inl (Error ''write failed'') :: error + unit, st)"
         and createNode = "\<lambda>nodeInfo val lock st. (Inl (Error ''write failed''), st)"
         and finish = "\<lambda>result lock st. (Inr True, None, st)"
         and nodeInfo = nodeInfo and val = "JObject [(''x'', JNumber 1)]" and merge = True
         and lock = 0 and st = S and ?st1.0 = S and err = "Error ''write failed''",
       OF stage valid held sort]
  have "fst (Node_update_write (\<lambda>h xs. xs) getPathKeys_spec 20
       (\<lambda>nodeInfo val lock st. (Inl (Error ''write failed'') :: error + unit, st))
       (\<lambda>nodeInfo val lock st. (Inl (Error ''write failed''), st))
       (\<lambda>result lock st. (Inr True, None, st))
       nodeInfo (JObject [(''x'', JNumber 1)]) True 0 S) = Resolved False"
    by simp
  with run valid held show ?thesis
    unfolding S_def nodeInfo_def by simp
qed

text \<open>
  Claim C4 as it stands says that the promise returned by \<^verbatim>\<open>Node.update\<close> rejects with
  the error of the failed write. It fails: an update of \<^verbatim>\<open>a/b\<close> on an empty lock list,
  whose merge fails with \<^verbatim>\<open>write failed\<close>, takes the lock, releases it, and resolves
  with \<^verbatim>\<open>false\<close>.
\<close>

theorem C4_update_does_not_reject_counterexample:
  "Node_update_chain (\<lambda>h xs. xs) getPathKeys_spec 20
     (\<lambda>p st. (Inr \<lparr> ni_path = Some p, ni_type = None, ni_index = None, ni_key = Some ''b'',
                     ni_exists = True,
                     ni_address = Some (new_NodeAddress (Some p) (Some 1) (Some 2)),
                     ni_value = None \<rparr>, st))
     (\<lambda>nodeInfo lock st. (Inr (JObject []), st))
     (\<lambda>nodeInfo val lock st. (Inl (Error ''write failed'') :: error + unit, st))
     (\<lambda>nodeInfo val lock st. (Inl (Error ''write failed''), st))
     (\<lambda>result lock st. (Inr True, None, st))
     ''a/b'' ''a/b'' (JObject [(''x'', JNumber 1)]) True False ''t1''
     \<lparr> heap = [], locks = [] \<rparr>
   = (Resolved False,
      \<lparr> heap = [\<lparr> lk_tid = ''t1'', lk_path = ''a/b'', lk_forWriting = True, lk_priority = False,
                   lk_state = DONE, lk_requested = 20, lk_granted = Some 20,
                   lk_expires = Some 900020,
                   lk_comment = ''moved to '' @ quoted ''a/b'' @ '': Node.update (get topEventPath ''
                                  @ quoted ''a/b'' @ '')'',
                   lk_waitingFor = None \<rparr>],
        locks = [] \<rparr>)
   \<and> fst (Node_update_chain (\<lambda>h xs. xs) getPathKeys_spec 20
     (\<lambda>p st. (Inr \<lparr> ni_path = Some p, ni_type = None, ni_index = None, ni_key = Some ''b'',
                     ni_exists = True,
                     ni_address = Some (new_NodeAddress (Some p) (Some 1) (Some 2)),
                     ni_value = None \<rparr>, st))
     (\<lambda>nodeInfo lock st. (Inr (JObject []), st))
     (\<lambda>nodeInfo val lock st. (Inl (Error ''write failed'') :: error + unit, st))
     (\<lambda>nodeInfo val lock st. (Inl (Error ''write failed''), st))
     (\<lambda>result lock st. (Inr True, None, st))
     ''a/b'' ''a/b'' (JObject [(''x'', JNumber 1)]) True False ''t1''
     \<lparr> heap = [], locks = [] \<rparr>)
     \<noteq> Rejected (Error ''write failed'')"
  by (simp add: Node_update_chain_def Node_update_write_def update_catch_def NodeLock_lock_def
      NodeLock_moveTo_def NodeLock_unlock_def allowLock_def grant_def processLockQueue_def
      quoted_def
      pending_locks_def LOCK_TIMEOUT_def Let_def)

end
